theory Spec2Isabelle
  imports Main
begin

section \<open>Go strings\<close>

text \<open>
  A Go string is a byte string, here a \<^typ>\<open>string\<close>. Package \<^verbatim>\<open>strings\<close> is Go's
  standard library, outside the repository. Its functions \<^verbatim>\<open>ToLower\<close>, \<^verbatim>\<open>ToUpper\<close>
  and \<^verbatim>\<open>TrimSpace\<close> work on the Unicode code points of a string (they map every cased
  letter, not only \<^verbatim>\<open>A-Z\<close> and \<^verbatim>\<open>a-z\<close>, and trim every Unicode white space), so
  they rest on the tables of package \<^verbatim>\<open>unicode\<close>. The code is modelled over these three
  functions as they are: they are the fields of a record that every function calling
  them takes as its first argument, and the theorems hold whatever the three functions
  are. \<^verbatim>\<open>HasPrefix\<close> compares bytes.
\<close>

record stringsPkg =
  ToLower :: "string \<Rightarrow> string"
  ToUpper :: "string \<Rightarrow> string"
  TrimSpace :: "string \<Rightarrow> string"

definition HasPrefix :: "string \<Rightarrow> string \<Rightarrow> bool" where
  "HasPrefix s p = (take (length p) s = p)"

section \<open>pkg/config: the permission flags\<close>

record DBConfig =
  Host :: string
  Port :: int
  User :: string
  Password :: string
  DBName :: string

record Permission =
  AllowQuery :: bool
  AllowInsert :: bool
  AllowUpdate :: bool
  AllowDelete :: bool

record Config =
  Databases :: "string \<rightharpoonup> DBConfig"
  Permission :: Permission

section \<open>The relational backend\<close>

text \<open>
  Package \<^verbatim>\<open>database/sql\<close> and the MySQL driver are outside the repository. A
  connection is what the code sees of it: \<^verbatim>\<open>db.Query\<close> and \<^verbatim>\<open>db.Exec\<close>, each
  answering with a failure message or with a handle. The answer may depend on the
  statements sent before, so both take the list of earlier calls. That list is the only
  state of the world the gateway changes: a statement is dispatched exactly when a call
  is appended to it.
\<close>

datatype call = QueryCall string | ExecCall string

text \<open>
  The dynamically typed cell of \<^verbatim>\<open>database/sql\<close>: \<^verbatim>\<open>nil\<close>, \<^verbatim>\<open>int64\<close>,
  \<^verbatim>\<open>float64\<close> (its bit pattern), \<^verbatim>\<open>bool\<close>, \<^verbatim>\<open>[]byte\<close>, \<^verbatim>\<open>string\<close> and
  \<^verbatim>\<open>time.Time\<close> (its text).
\<close>

datatype val =
    VNil
  | VInt64 int
  | VFloat64 nat
  | VBool bool
  | VBytes string
  | VString string
  | VTime string

text \<open>
  A cursor (\<^verbatim>\<open>*sql.Rows\<close>): the answer of \<^verbatim>\<open>rows.Columns()\<close>, then one entry for
  every time \<^verbatim>\<open>rows.Next()\<close> is true (the values the driver holds for that row, or the
  failure \<^verbatim>\<open>rows.Scan\<close> reports for it), and the answer of \<^verbatim>\<open>rows.Err()\<close> once
  \<^verbatim>\<open>rows.Next()\<close> is false.
\<close>

record sqlRows =
  rowsColumns :: "string + string list"
  rowsNext :: "(string + val list) list"
  rowsErr :: "string option"

text \<open>
  A \<^verbatim>\<open>sql.Result\<close>: the pairs \<^verbatim>\<open>(int64, error)\<close> that \<^verbatim>\<open>RowsAffected()\<close> and
  \<^verbatim>\<open>LastInsertId()\<close> return.
\<close>

record sqlResult =
  resRowsAffected :: "int \<times> string option"
  resLastInsertId :: "int \<times> string option"

record sqlDB =
  dbQuery :: "call list \<Rightarrow> string \<Rightarrow> string + sqlRows"
  dbExec :: "call list \<Rightarrow> string \<Rightarrow> string + sqlResult"

section \<open>pkg/db: the database gateway\<close>

text \<open>
  The errors of the gateway. The four permission errors are the \<^verbatim>\<open>fmt.Errorf\<close> values
  of \<^verbatim>\<open>Query\<close> and \<^verbatim>\<open>Execute\<close> (their messages say that the query, insert, update
  or delete operation is not allowed); \<open>DBNotConfigured\<close> is the one of \<^verbatim>\<open>GetDB\<close>;
  \<open>DriverError\<close> carries a failure of the backend unchanged; \<open>ScanArity\<close> is the
  failure of \<^verbatim>\<open>rows.Scan\<close> when the row does not hold one value for each destination.
\<close>

datatype error =
    QueryNotAllowed
  | InsertNotAllowed
  | UpdateNotAllowed
  | DeleteNotAllowed
  | DBNotConfigured string
  | DriverError string
  | ScanArity nat nat

fun isPermissionDenied :: "error \<Rightarrow> bool" where
  "isPermissionDenied QueryNotAllowed = True"
| "isPermissionDenied InsertNotAllowed = True"
| "isPermissionDenied UpdateNotAllowed = True"
| "isPermissionDenied DeleteNotAllowed = True"
| "isPermissionDenied _ = False"

record DBManager =
  connections :: "string \<rightharpoonup> sqlDB"
  config :: Config

text \<open>
  What \<^verbatim>\<open>Query\<close> and \<^verbatim>\<open>Execute\<close> return, a pair \<^verbatim>\<open>(result, err)\<close>: either
  \<^verbatim>\<open>err\<close> is not \<^verbatim>\<open>nil\<close> and the result pointer is \<^verbatim>\<open>nil\<close> (\<open>None\<close>) or a
  result that holds only the error text, or \<^verbatim>\<open>err\<close> is \<^verbatim>\<open>nil\<close> and the result is
  there.
\<close>

datatype 'r returned = Failure "'r option" error | Success 'r

text \<open>
  \<open>Error\<close> holds \<^verbatim>\<open>err.Error()\<close>, kept as the error it is the text of; \<open>None\<close> is
  the empty string. A \<^verbatim>\<open>nil\<close> slice is the empty list.
\<close>

record QueryResult =
  Columns :: "string list"
  Rows :: "val list list"
  Error :: "error option"

definition GetDB :: "DBManager \<Rightarrow> string \<Rightarrow> error + sqlDB" where
  "GetDB m name =
     (case connections m name of
        None \<Rightarrow> Inl (DBNotConfigured name)
      | Some db \<Rightarrow> Inr db)"

text \<open>The \<^verbatim>\<open>switch v.(type)\<close> of \<^verbatim>\<open>Query\<close>: a byte string becomes a string.\<close>

fun convertValue :: "val \<Rightarrow> val" where
  "convertValue VNil = VNil"
| "convertValue (VBytes b) = VString b"
| "convertValue v = v"

definition queryFailed :: "error \<Rightarrow> QueryResult returned" where
  "queryFailed e = Failure (Some \<lparr>Columns = [], Rows = [], Error = Some e\<rparr>) e"

text \<open>
  The loop \<^verbatim>\<open>for rows.Next()\<close>: \<open>acc\<close> is \<^verbatim>\<open>result.Rows\<close> so far. A row whose
  scan fails ends the function with the error; the rows gathered so far are not returned.
\<close>

fun scanRows :: "string list \<Rightarrow> (string + val list) list \<Rightarrow> val list list
    \<Rightarrow> error + val list list" where
  "scanRows columns [] acc = Inr acc"
| "scanRows columns (Inl msg # rest) acc = Inl (DriverError msg)"
| "scanRows columns (Inr values # rest) acc =
     (if length values \<noteq> length columns
      then Inl (ScanArity (length values) (length columns))
      else scanRows columns rest (acc @ [map convertValue values]))"

text \<open>
  \<^verbatim>\<open>func (m *DBManager) Query(dbName, query string, args ...interface{})\<close>; every
  caller in the repository passes no \<^verbatim>\<open>args\<close>. The result is the pair the Go function
  returns and the list of backend calls afterwards.
\<close>

definition Query :: "DBManager \<Rightarrow> string \<Rightarrow> string \<Rightarrow> call list
    \<Rightarrow> QueryResult returned \<times> call list" where
  "Query m dbName query tr =
     (if \<not> AllowQuery (Permission (config m)) then (Failure None QueryNotAllowed, tr)
      else case GetDB m dbName of
        Inl err \<Rightarrow> (queryFailed err, tr)
      | Inr db \<Rightarrow>
          (let tr' = tr @ [QueryCall query] in
           case dbQuery db tr query of
             Inl msg \<Rightarrow> (queryFailed (DriverError msg), tr')
           | Inr rows \<Rightarrow>
               (case rowsColumns rows of
                  Inl msg \<Rightarrow> (queryFailed (DriverError msg), tr')
                | Inr columns \<Rightarrow>
                    (case scanRows columns (rowsNext rows) [] of
                       Inl err \<Rightarrow> (queryFailed err, tr')
                     | Inr rs \<Rightarrow>
                         (case rowsErr rows of
                            Some msg \<Rightarrow> (queryFailed (DriverError msg), tr')
                          | None \<Rightarrow>
                              (Success \<lparr>Columns = columns, Rows = rs, Error = None\<rparr>,
                               tr'))))))"

record ExecuteResult =
  RowsAffected :: int
  LastInsertID :: int
  Error :: "error option"

definition executeFailed :: "error \<Rightarrow> ExecuteResult returned" where
  "executeFailed e =
     Failure (Some \<lparr>RowsAffected = 0, LastInsertID = 0, Error = Some e\<rparr>) e"

text \<open>
  The permission check at the head of \<^verbatim>\<open>Execute\<close>: the \<^verbatim>\<open>if / else if\<close> chain over
  the lower-cased, trimmed statement. \<open>Some e\<close> is the early \<^verbatim>\<open>return nil, e\<close>.
\<close>

definition executeDenied :: "Permission \<Rightarrow> string \<Rightarrow> error option" where
  "executeDenied p lowerQuery =
     (if HasPrefix lowerQuery ''insert'' then
        (if \<not> AllowInsert p then Some InsertNotAllowed else None)
      else if HasPrefix lowerQuery ''update'' then
        (if \<not> AllowUpdate p then Some UpdateNotAllowed else None)
      else if HasPrefix lowerQuery ''delete'' then
        (if \<not> AllowDelete p then Some DeleteNotAllowed else None)
      else None)"

definition Execute :: "stringsPkg \<Rightarrow> DBManager \<Rightarrow> string \<Rightarrow> string \<Rightarrow> call list
    \<Rightarrow> ExecuteResult returned \<times> call list" where
  "Execute lib m dbName query tr =
     (let lowerQuery = TrimSpace lib (ToLower lib query) in
      case executeDenied (Permission (config m)) lowerQuery of
        Some err \<Rightarrow> (Failure None err, tr)
      | None \<Rightarrow>
          (case GetDB m dbName of
             Inl err \<Rightarrow> (executeFailed err, tr)
           | Inr db \<Rightarrow>
               (let tr' = tr @ [ExecCall query] in
                case dbExec db tr query of
                  Inl msg \<Rightarrow> (executeFailed (DriverError msg), tr')
                | Inr result \<Rightarrow>
                    (case resRowsAffected result of
                       (_, Some msg) \<Rightarrow> (executeFailed (DriverError msg), tr')
                     | (rowsAffected, None) \<Rightarrow>
                         (case resLastInsertId result of
                            (_, Some msg) \<Rightarrow> (executeFailed (DriverError msg), tr')
                          | (lastInsertID, None) \<Rightarrow>
                              (Success \<lparr>RowsAffected = rowsAffected,
                                        LastInsertID = lastInsertID,
                                        Error = None\<rparr>, tr'))))))"

section \<open>JSON values\<close>

text \<open>
  Package \<^verbatim>\<open>encoding/json\<close> is outside the repository. A JSON text that is
  syntactically valid is the value it denotes; a number keeps its literal and an object
  keeps its members in the order of the text, repeated keys included.
\<close>

datatype json =
    JNull
  | JBool bool
  | JNumber string
  | JString string
  | JArray "json list"
  | JObject "(string \<times> json) list"

section \<open>The go-mcp server: the tool handlers\<close>

text \<open>
  The package-level variables of the server that registers \<^verbatim>\<open>handleQuery\<close> and
  \<^verbatim>\<open>handleExecute\<close> with the go-mcp library. This server has no flag for reading.
\<close>

record globals =
  db :: sqlDB
  allowInsert :: bool
  allowUpdate :: bool
  allowDelete :: bool
  logEnabled :: bool

text \<open>
  The errors of the two handlers, by their messages:
  \<^item> \<open>SqlMustBeString\<close>: \<^verbatim>\<open>sql must be a string\<close>;
  \<^item> \<open>OnlyReadQueries\<close>: \<^verbatim>\<open>only SELECT, SHOW, or DESCRIBE queries are allowed\<close>;
  \<^item> \<open>NoInsertPermission\<close>, \<open>NoUpdatePermission\<close>, \<open>NoDeletePermission\<close>:
    \<^verbatim>\<open>no INSERT permission\<close> and so on;
  \<^item> \<open>DangerousOperation\<close>: \<^verbatim>\<open>DROP or TRUNCATE operations are not allowed\<close>;
  \<^item> the others wrap the failure of the backend or of \<^verbatim>\<open>json.Marshal\<close> they name.
\<close>

datatype toolError =
    SqlMustBeString
  | OnlyReadQueries
  | QueryExecutionError string
  | ColumnNamesError string
  | ReadRowError error
  | IterationError string
  | SerializationError string
  | NoInsertPermission
  | NoUpdatePermission
  | NoDeletePermission
  | DangerousOperation
  | SQLExecutionError string

record TextContent =
  Type :: string
  Text :: string

record CallToolResult =
  Content :: "TextContent list"

text \<open>
  A handler returns its pair \<^verbatim>\<open>(result, error)\<close>, or it panics: the log line of a
  rejected statement slices \<^verbatim>\<open>sqlUpper[:10]\<close>, which is out of range for a statement
  shorter than ten bytes.
\<close>

datatype outcome = Panic | Return "toolError + CallToolResult"

text \<open>
  The loop \<^verbatim>\<open>for rows.Next()\<close> of \<^verbatim>\<open>handleQuery\<close>. A row is a Go map from column
  name to value, filled in the order of the columns, so that of two columns of one name
  the later one stays.
\<close>

fun scanResults :: "string list \<Rightarrow> (string + val list) list \<Rightarrow> (string \<rightharpoonup> val) list
    \<Rightarrow> error + (string \<rightharpoonup> val) list" where
  "scanResults columns [] results = Inr results"
| "scanResults columns (Inl msg # rest) results = Inl (DriverError msg)"
| "scanResults columns (Inr values # rest) results =
     (if length values \<noteq> length columns
      then Inl (ScanArity (length values) (length columns))
      else scanResults columns rest
             (results @ [map_of (rev (zip columns (map convertValue values)))]))"

text \<open>
  \<^verbatim>\<open>func handleQuery(request *protocol.CallToolRequest)\<close>. \<open>Arguments\<close> is
  \<^verbatim>\<open>request.Arguments\<close>, a \<^verbatim>\<open>map[string]interface{}\<close>; \<open>marshal\<close> is
  \<^verbatim>\<open>json.Marshal\<close> on the rows.
\<close>

definition handleQuery :: "stringsPkg \<Rightarrow> ((string \<rightharpoonup> val) list \<Rightarrow> string + string) \<Rightarrow> globals
    \<Rightarrow> (string \<rightharpoonup> json) \<Rightarrow> call list \<Rightarrow> outcome \<times> call list" where
  "handleQuery lib marshal g Arguments tr =
     (case Arguments ''sql'' of
        Some (JString sql) \<Rightarrow>
          (let sqlUpper = TrimSpace lib (ToUpper lib sql) in
           if \<not> HasPrefix sqlUpper ''SELECT'' \<and> \<not> HasPrefix sqlUpper ''SHOW''
              \<and> \<not> HasPrefix sqlUpper ''DESCRIBE''
           then (if logEnabled g \<and> length sqlUpper < 10 then (Panic, tr)
                 else (Return (Inl OnlyReadQueries), tr))
           else
             (let tr' = tr @ [QueryCall sql] in
              case dbQuery (db g) tr sql of
                Inl msg \<Rightarrow> (Return (Inl (QueryExecutionError msg)), tr')
              | Inr rows \<Rightarrow>
                  (case rowsColumns rows of
                     Inl msg \<Rightarrow> (Return (Inl (ColumnNamesError msg)), tr')
                   | Inr columns \<Rightarrow>
                       (case scanResults columns (rowsNext rows) [] of
                          Inl err \<Rightarrow> (Return (Inl (ReadRowError err)), tr')
                        | Inr results \<Rightarrow>
                            (case rowsErr rows of
                               Some msg \<Rightarrow> (Return (Inl (IterationError msg)), tr')
                             | None \<Rightarrow>
                                 (case marshal results of
                                    Inl msg \<Rightarrow> (Return (Inl (SerializationError msg)), tr')
                                  | Inr jsonData \<Rightarrow>
                                      (Return (Inr \<lparr>Content =
                                         [\<lparr>Type = ''text'', Text = jsonData\<rparr>]\<rparr>),
                                       tr')))))))
      | _ \<Rightarrow> (Return (Inl SqlMustBeString), tr))"

text \<open>
  \<^verbatim>\<open>func handleExecute(request *protocol.CallToolRequest)\<close>. The errors of
  \<^verbatim>\<open>LastInsertId()\<close> and \<^verbatim>\<open>RowsAffected()\<close> are dropped; \<open>marshal\<close> is
  \<^verbatim>\<open>json.Marshal\<close> on the map of the two numbers, last insert id first.
\<close>

definition handleExecute :: "stringsPkg \<Rightarrow> (int \<Rightarrow> int \<Rightarrow> string + string) \<Rightarrow> globals
    \<Rightarrow> (string \<rightharpoonup> json) \<Rightarrow> call list \<Rightarrow> outcome \<times> call list" where
  "handleExecute lib marshal g Arguments tr =
     (case Arguments ''sql'' of
        Some (JString sql) \<Rightarrow>
          (let sqlUpper = TrimSpace lib (ToUpper lib sql) in
           if HasPrefix sqlUpper ''INSERT'' \<and> \<not> allowInsert g
           then (Return (Inl NoInsertPermission), tr)
           else if HasPrefix sqlUpper ''UPDATE'' \<and> \<not> allowUpdate g
           then (Return (Inl NoUpdatePermission), tr)
           else if HasPrefix sqlUpper ''DELETE'' \<and> \<not> allowDelete g
           then (Return (Inl NoDeletePermission), tr)
           else if HasPrefix sqlUpper ''DROP'' \<or> HasPrefix sqlUpper ''TRUNCATE''
           then (if logEnabled g \<and> length sqlUpper < 10 then (Panic, tr)
                 else (Return (Inl DangerousOperation), tr))
           else
             (let tr' = tr @ [ExecCall sql] in
              case dbExec (db g) tr sql of
                Inl msg \<Rightarrow> (Return (Inl (SQLExecutionError msg)), tr')
              | Inr result \<Rightarrow>
                  (let lastInsertID = fst (resLastInsertId result);
                       rowsAffected = fst (resRowsAffected result) in
                   case marshal lastInsertID rowsAffected of
                     Inl msg \<Rightarrow> (Return (Inl (SerializationError msg)), tr')
                   | Inr jsonData \<Rightarrow>
                       (Return (Inr \<lparr>Content = [\<lparr>Type = ''text'', Text = jsonData\<rparr>]\<rparr>),
                        tr'))))
      | _ \<Rightarrow> (Return (Inl SqlMustBeString), tr))"

section \<open>cmd/ai2mysql-mcp-server: the JSON-RPC dispatcher\<close>

subsection \<open>Decoding the nested parameters\<close>

text \<open>
  \<^verbatim>\<open>json.Unmarshal\<close> into a struct, as package \<^verbatim>\<open>encoding/json\<close> documents it. A
  member of the object goes to the field whose name its key equals, letter case
  disregarded; \<open>foldName\<close> is that folding on names in ASCII, under which the two
  non-ASCII letters that fold to ASCII ones (the long s \<^verbatim>\<open>U+017F\<close> and the Kelvin sign
  \<^verbatim>\<open>U+212A\<close>, in UTF-8) count as \<^verbatim>\<open>s\<close> and \<^verbatim>\<open>k\<close>. Members are stored in the order
  of the text. Into a \<^verbatim>\<open>string\<close> field, a string is stored, \<^verbatim>\<open>null\<close> changes
  nothing, and any other value is a type error, which is reported when the whole object
  has been read. A \<^verbatim>\<open>json.RawMessage\<close> field takes any value as it is, \<^verbatim>\<open>null\<close>
  too. A field no member names keeps its zero value. At the top, \<^verbatim>\<open>null\<close> leaves
  the struct as it is, a value that is no object is a type error, and an empty
  \<^verbatim>\<open>RawMessage\<close> (\<open>None\<close>) is a syntax error.
\<close>

text \<open>\<open>toLowerChar\<close> maps an ASCII capital letter to the small one.\<close>

definition toLowerChar :: "char \<Rightarrow> char" where
  "toLowerChar c =
     (case map_of (zip ''ABCDEFGHIJKLMNOPQRSTUVWXYZ'' ''abcdefghijklmnopqrstuvwxyz'') c of
        Some l \<Rightarrow> l | None \<Rightarrow> c)"

fun foldName :: "string \<Rightarrow> string" where
  "foldName [] = []"
| "foldName (a # s) =
     (if a = CHR 0xC5 \<and> take 1 s = [CHR 0xBF] then CHR ''s'' # foldName (drop 1 s)
      else if a = CHR 0xE2 \<and> take 2 s = [CHR 0x84, CHR 0xAA] then CHR ''k'' # foldName (drop 2 s)
      else toLowerChar a # foldName s)"

definition fieldValues :: "string \<Rightarrow> (string \<times> json) list \<Rightarrow> json list" where
  "fieldValues name members = map snd (filter (\<lambda>(k, v). foldName k = name) members)"

fun storeString :: "string \<Rightarrow> json list \<Rightarrow> string" where
  "storeString cur [] = cur"
| "storeString cur (JString s # vs) = storeString s vs"
| "storeString cur (v # vs) = storeString cur vs"

fun stringTypeError :: "json \<Rightarrow> bool" where
  "stringTypeError JNull = False"
| "stringTypeError (JString s) = False"
| "stringTypeError v = True"

definition storeRaw :: "json list \<Rightarrow> json option" where
  "storeRaw vs = (if vs = [] then None else Some (last vs))"

datatype jsonError = UnexpectedEndOfJSON | UnmarshalTypeError

record SQLParams =
  SQL :: string

definition unmarshalSQLParams :: "json option \<Rightarrow> jsonError + SQLParams" where
  "unmarshalSQLParams raw =
     (case raw of
        None \<Rightarrow> Inl UnexpectedEndOfJSON
      | Some JNull \<Rightarrow> Inr \<lparr>SQL = ''''\<rparr>
      | Some (JObject members) \<Rightarrow>
          (let vs = fieldValues ''sql'' members in
           if list_ex stringTypeError vs then Inl UnmarshalTypeError
           else Inr \<lparr>SQL = storeString '''' vs\<rparr>)
      | Some _ \<Rightarrow> Inl UnmarshalTypeError)"

text \<open>
  \<^verbatim>\<open>ToolCallParams\<close> (\<^verbatim>\<open>name\<close>, \<^verbatim>\<open>arguments\<close>) and \<^verbatim>\<open>ToolParams\<close>
  (\<^verbatim>\<open>name\<close>, \<^verbatim>\<open>params\<close>) differ in the key of the raw field only.
\<close>

record ToolCallParams =
  Name :: string
  Arguments :: "json option"

definition unmarshalToolParams :: "string \<Rightarrow> json option \<Rightarrow> jsonError + ToolCallParams" where
  "unmarshalToolParams rawKey raw =
     (case raw of
        None \<Rightarrow> Inl UnexpectedEndOfJSON
      | Some JNull \<Rightarrow> Inr \<lparr>Name = '''', Arguments = None\<rparr>
      | Some (JObject members) \<Rightarrow>
          (let ns = fieldValues ''name'' members in
           if list_ex stringTypeError ns then Inl UnmarshalTypeError
           else Inr \<lparr>Name = storeString '''' ns,
                     Arguments = storeRaw (fieldValues rawKey members)\<rparr>)
      | Some _ \<Rightarrow> Inl UnmarshalTypeError)"

subsection \<open>Messages\<close>

text \<open>
  The message of an error response. \<open>ErrorText e\<close> is \<^verbatim>\<open>err.Error()\<close>; the message
  that \<^verbatim>\<open>handleMySQLQuery\<close> sends when reading is not allowed is the text of
  \<open>QueryNotAllowed\<close>. The other six are the fixed texts for a line that is no JSON
  message, an unsupported method, invalid parameters, an unsupported tool, invalid SQL
  parameters and a result that cannot be serialized.
\<close>

datatype message =
    ParseJSONFailed
  | MethodNotSupported
  | InvalidParams
  | ToolNotSupported
  | InvalidSQLParams
  | SerializeResultFailed
  | ErrorText error

datatype data = NoData | TextData string | JSONErrorData jsonError

record MCPError =
  Code :: int
  Message :: message
  Data :: data

record MCPContent =
  Type :: string
  Text :: string

record MCPToolResult =
  Content :: "MCPContent list"

text \<open>
  The \<^verbatim>\<open>Result\<close> of a message, an \<^verbatim>\<open>interface{}\<close>: nothing, the value decoded
  from a line, the fixed map that \<^verbatim>\<open>handleInitialize\<close> builds (protocol version, server
  info and the two tools), the fixed map of \<^verbatim>\<open>handleToolsList\<close>, or a tool result.
\<close>

datatype result =
    NoResult
  | DecodedResult json
  | InitializeResult
  | ToolsListResult
  | ToolResult MCPToolResult

text \<open>
  \<open>ID\<close> is an \<^verbatim>\<open>interface{}\<close> that holds a decoded JSON value; \<open>JNull\<close> is
  \<^verbatim>\<open>nil\<close>, which a line without an \<^verbatim>\<open>id\<close> and a line with \<^verbatim>\<open>"id": null\<close> both
  give. \<open>Params\<close> is a \<^verbatim>\<open>json.RawMessage\<close>, \<open>None\<close> when the line has none.
\<close>

record MCPMessage =
  JSONRPC :: string
  ID :: json
  Method :: string
  Params :: "json option"
  Result :: result
  Error :: "MCPError option"

text \<open>
  A line of the input is what \<^verbatim>\<open>json.Unmarshal(line, &message)\<close> makes of it: an error
  (with its text), or the message.
\<close>

datatype line = Malformed string | Envelope MCPMessage

text \<open>How \<^verbatim>\<open>reader.ReadString\<close> fails once the complete lines are used up.\<close>

datatype readEnd = EOF | ReadError string

text \<open>
  The server holds the gateway and the configuration. \<^verbatim>\<open>json.MarshalIndent\<close> on the
  two result types is passed with it. The logger writes to a file or to the standard
  error stream and is left out.
\<close>

record MCPServer =
  dbManager :: DBManager
  config :: Config
  marshalQueryResult :: "QueryResult \<Rightarrow> string + string"
  marshalExecuteResult :: "ExecuteResult \<Rightarrow> string + string"

text \<open>
  What the server changes: the responses written to the output stream, oldest first, and
  the calls made to the backend. \<open>gateway\<close> is a ghost log: it records every call of
  a handler to \<^verbatim>\<open>dbManager.Query\<close> or \<^verbatim>\<open>dbManager.Execute\<close>, with the connection
  label and the statement passed. \<^verbatim>\<open>json.Marshal\<close> does not fail on a response
  the server builds (strings, the decoded id, fixed maps), and the writer is taken to
  accept every response; \<^verbatim>\<open>sendResponse\<close> logs a failed write and returns.
\<close>

datatype gatewayCall = GatewayQuery string string | GatewayExecute string string

record world =
  written :: "MCPMessage list"
  calls :: "call list"
  gateway :: "gatewayCall list"

subsection \<open>The handlers\<close>

definition sendResponse :: "MCPMessage \<Rightarrow> world \<Rightarrow> world" where
  "sendResponse response w = w\<lparr>written := written w @ [response]\<rparr>"

definition sendError :: "json \<Rightarrow> int \<Rightarrow> message \<Rightarrow> data \<Rightarrow> world \<Rightarrow> world" where
  "sendError id' code message data w =
     sendResponse \<lparr>JSONRPC = ''2.0'', ID = id', Method = '''', Params = None,
                   Result = NoResult,
                   Error = Some \<lparr>Code = code, Message = message, Data = data\<rparr>\<rparr> w"

definition toolResponse :: "json \<Rightarrow> string \<Rightarrow> MCPMessage" where
  "toolResponse id' jsonResult =
     \<lparr>JSONRPC = ''2.0'', ID = id', Method = '''', Params = None,
      Result = ToolResult \<lparr>Content = [\<lparr>Type = ''text'', Text = jsonResult\<rparr>]\<rparr>,
      Error = None\<rparr>"

definition handleMySQLQuery :: "MCPServer \<Rightarrow> json \<Rightarrow> json option \<Rightarrow> world \<Rightarrow> world" where
  "handleMySQLQuery s id' rawParams w =
     (if \<not> AllowQuery (Permission (config s))
      then sendError id' (- 32000) (ErrorText QueryNotAllowed) NoData w
      else case unmarshalSQLParams rawParams of
        Inl err \<Rightarrow> sendError id' (- 32602) InvalidSQLParams (JSONErrorData err) w
      | Inr sqlParams \<Rightarrow>
          (let (ret, tr) = Query (dbManager s) ''default'' (SQL sqlParams) (calls w);
               w' = w\<lparr>calls := tr,
                      gateway := gateway w @ [GatewayQuery ''default'' (SQL sqlParams)]\<rparr>
           in case ret of
                Failure r err \<Rightarrow> sendError id' (- 32000) (ErrorText err) NoData w'
              | Success result \<Rightarrow>
                  (case marshalQueryResult s result of
                     Inl msg \<Rightarrow>
                       sendError id' (- 32000) SerializeResultFailed (TextData msg) w'
                   | Inr jsonResult \<Rightarrow> sendResponse (toolResponse id' jsonResult) w')))"

definition handleMySQLExecute :: "stringsPkg \<Rightarrow> MCPServer \<Rightarrow> json \<Rightarrow> json option \<Rightarrow> world \<Rightarrow> world" where
  "handleMySQLExecute lib s id' rawParams w =
     (case unmarshalSQLParams rawParams of
        Inl err \<Rightarrow> sendError id' (- 32602) InvalidSQLParams (JSONErrorData err) w
      | Inr sqlParams \<Rightarrow>
          (let (ret, tr) = Execute lib (dbManager s) ''default'' (SQL sqlParams) (calls w);
               w' = w\<lparr>calls := tr,
                      gateway := gateway w @ [GatewayExecute ''default'' (SQL sqlParams)]\<rparr>
           in case ret of
                Failure r err \<Rightarrow> sendError id' (- 32000) (ErrorText err) NoData w'
              | Success result \<Rightarrow>
                  (case marshalExecuteResult s result of
                     Inl msg \<Rightarrow>
                       sendError id' (- 32000) SerializeResultFailed (TextData msg) w'
                   | Inr jsonResult \<Rightarrow> sendResponse (toolResponse id' jsonResult) w')))"

definition handleCallTool :: "stringsPkg \<Rightarrow> MCPServer \<Rightarrow> MCPMessage \<Rightarrow> world \<Rightarrow> world" where
  "handleCallTool lib s message w =
     (case unmarshalToolParams
             (if Method message = ''tools/call'' then ''arguments'' else ''params'')
             (Params message) of
        Inl err \<Rightarrow> sendError (ID message) (- 32602) InvalidParams (JSONErrorData err) w
      | Inr params \<Rightarrow>
          (let toolName = Name params; toolParams = Arguments params in
           if toolName = ''mcp_mysql_query''
           then handleMySQLQuery s (ID message) toolParams w
           else if toolName = ''mcp_mysql_execute''
           then handleMySQLExecute lib s (ID message) toolParams w
           else sendError (ID message) (- 32601) ToolNotSupported (TextData toolName) w))"

definition handleInitialize :: "MCPMessage \<Rightarrow> world \<Rightarrow> world" where
  "handleInitialize message w =
     sendResponse \<lparr>JSONRPC = ''2.0'', ID = ID message, Method = '''', Params = None,
                   Result = InitializeResult, Error = None\<rparr> w"

definition handleToolsList :: "MCPMessage \<Rightarrow> world \<Rightarrow> world" where
  "handleToolsList message w =
     sendResponse \<lparr>JSONRPC = ''2.0'', ID = ID message, Method = '''', Params = None,
                   Result = ToolsListResult, Error = None\<rparr> w"

definition handleMessage :: "stringsPkg \<Rightarrow> MCPServer \<Rightarrow> MCPMessage \<Rightarrow> world \<Rightarrow> world" where
  "handleMessage lib s message w =
     (if Method message = ''initialize'' then handleInitialize message w
      else if Method message = ''initialized'' then w
      else if Method message = ''tools/list'' then handleToolsList message w
      else if Method message = ''mcp/callTool'' then handleCallTool lib s message w
      else if Method message = ''tools/call'' then handleCallTool lib s message w
      else sendError (ID message) (- 32601) MethodNotSupported
             (TextData (Method message)) w)"

subsection \<open>The run loop\<close>

text \<open>
  \<^verbatim>\<open>func (s *MCPServer) Run() error\<close>: one turn of the loop for each complete line of
  the input. When no complete line is left, \<^verbatim>\<open>ReadString\<close> fails: with \<^verbatim>\<open>io.EOF\<close>
  the loop returns \<^verbatim>\<open>nil\<close> (\<open>None\<close>), with any other error it returns an error that
  wraps it.
\<close>

datatype runError = ReadRequestFailed string

fun Run :: "stringsPkg \<Rightarrow> MCPServer \<Rightarrow> line list \<Rightarrow> readEnd \<Rightarrow> world \<Rightarrow> runError option \<times> world" where
  "Run lib s [] EOF w = (None, w)"
| "Run lib s [] (ReadError msg) w = (Some (ReadRequestFailed msg), w)"
| "Run lib s (Malformed msg # rest) e w =
     Run lib s rest e (sendError JNull (- 32700) ParseJSONFailed (TextData msg) w)"
| "Run lib s (Envelope message # rest) e w = Run lib s rest e (handleMessage lib s message w)"

section \<open>Sample configurations\<close>

text \<open>
  Concrete values on which the theorems below are run. \<open>sampleDB\<close> rejects the empty
  statement, as MySQL does, and answers every other query with a cursor of two columns and
  two rows and every other statement with one affected row;
  \<open>brokenScanDB\<close> answers every query with a cursor whose second row fails to scan;
  \<open>brokenCursorDB\<close> with a cursor that gives one row and then ends with an error, which
  \<^verbatim>\<open>rows.Err()\<close> reports.
  \<open>defaultDBConfig\<close> and \<open>readOnly\<close> are the values of \<^verbatim>\<open>DefaultConfig()\<close>.
\<close>

text \<open>
  \<open>asciiStrings\<close> is package \<^verbatim>\<open>strings\<close> on ASCII text: it maps the letters
  \<^verbatim>\<open>A-Z\<close> and \<^verbatim>\<open>a-z\<close>, trims the six ASCII white-space bytes and leaves every
  other byte as it is. On a string of ASCII bytes it returns what Go returns; the
  statements it is applied to below are such strings.
\<close>

definition toUpperChar :: "char \<Rightarrow> char" where
  "toUpperChar c =
     (case map_of (zip ''abcdefghijklmnopqrstuvwxyz'' ''ABCDEFGHIJKLMNOPQRSTUVWXYZ'') c of
        Some u \<Rightarrow> u | None \<Rightarrow> c)"

definition isSpace :: "char \<Rightarrow> bool" where
  "isSpace c = (c \<in> set [CHR 0x09, CHR 0x0A, CHR 0x0B, CHR 0x0C, CHR 0x0D, CHR '' ''])"

definition asciiStrings :: stringsPkg where
  "asciiStrings =
     \<lparr>ToLower = map toLowerChar,
      ToUpper = map toUpperChar,
      TrimSpace = (\<lambda>s. rev (dropWhile isSpace (rev (dropWhile isSpace s))))\<rparr>"

definition sampleDB :: sqlDB where
  "sampleDB =
     \<lparr>dbQuery = (\<lambda>tr q.
         if q = '''' then Inl ''Error 1065: Query was empty''
         else Inr \<lparr>rowsColumns = Inr [''id'', ''name''],
                   rowsNext = [Inr [VInt64 1, VBytes ''ann''], Inr [VInt64 2, VNil]],
                   rowsErr = None\<rparr>),
      dbExec = (\<lambda>tr q.
         if q = '''' then Inl ''Error 1065: Query was empty''
         else Inr \<lparr>resRowsAffected = (1, None), resLastInsertId = (7, None)\<rparr>)\<rparr>"

definition brokenScanDB :: sqlDB where
  "brokenScanDB =
     \<lparr>dbQuery = (\<lambda>tr q. Inr \<lparr>rowsColumns = Inr [''id'', ''name''],
                               rowsNext = [Inr [VInt64 1, VBytes ''ann''], Inl ''scan failed''],
                               rowsErr = None\<rparr>),
      dbExec = (\<lambda>tr q. Inl ''exec failed'')\<rparr>"

definition brokenCursorDB :: sqlDB where
  "brokenCursorDB =
     \<lparr>dbQuery = (\<lambda>tr q. Inr \<lparr>rowsColumns = Inr [''id'', ''name''],
                               rowsNext = [Inr [VInt64 1, VBytes ''ann'']],
                               rowsErr = Some ''connection lost''\<rparr>),
      dbExec = (\<lambda>tr q. Inl ''exec failed'')\<rparr>"

definition defaultDBConfig :: DBConfig where
  "defaultDBConfig =
     \<lparr>Host = ''localhost'', Port = 3306, User = ''root'', Password = '''', DBName = ''test''\<rparr>"

definition readOnly :: Permission where
  "readOnly = \<lparr>AllowQuery = True, AllowInsert = False, AllowUpdate = False,
               AllowDelete = False\<rparr>"

definition allowAll :: Permission where
  "allowAll = \<lparr>AllowQuery = True, AllowInsert = True, AllowUpdate = True,
               AllowDelete = True\<rparr>"

definition allowNone :: Permission where
  "allowNone = \<lparr>AllowQuery = False, AllowInsert = False, AllowUpdate = False,
                AllowDelete = False\<rparr>"

definition sampleManager :: "sqlDB \<Rightarrow> Permission \<Rightarrow> DBManager" where
  "sampleManager d p =
     \<lparr>connections = [''default'' \<mapsto> d],
      config = \<lparr>Databases = [''default'' \<mapsto> defaultDBConfig], Permission = p\<rparr>\<rparr>"

definition sampleServer :: "Permission \<Rightarrow> MCPServer" where
  "sampleServer p =
     \<lparr>dbManager = sampleManager sampleDB p,
      config = \<lparr>Databases = [''default'' \<mapsto> defaultDBConfig], Permission = p\<rparr>,
      marshalQueryResult = (\<lambda>r. Inr ''{}''),
      marshalExecuteResult = (\<lambda>r. Inr ''{}'')\<rparr>"

definition sampleGlobals :: "bool \<Rightarrow> bool \<Rightarrow> globals" where
  "sampleGlobals allow logging =
     \<lparr>db = sampleDB, allowInsert = allow, allowUpdate = allow, allowDelete = allow,
      logEnabled = logging\<rparr>"

definition emptyWorld :: world where
  "emptyWorld = \<lparr>written = [], calls = [], gateway = []\<rparr>"

text \<open>An incoming message with the given \<^verbatim>\<open>id\<close>, \<^verbatim>\<open>method\<close> and \<^verbatim>\<open>params\<close>.\<close>

definition incoming :: "json \<Rightarrow> string \<Rightarrow> json option \<Rightarrow> MCPMessage" where
  "incoming i method params =
     \<lparr>JSONRPC = ''2.0'', ID = i, Method = method, Params = params, Result = NoResult,
      Error = None\<rparr>"

text \<open>The error response that \<^verbatim>\<open>sendError\<close> builds.\<close>

definition errorResponse :: "json \<Rightarrow> int \<Rightarrow> message \<Rightarrow> data \<Rightarrow> MCPMessage" where
  "errorResponse i code message data =
     \<lparr>JSONRPC = ''2.0'', ID = i, Method = '''', Params = None, Result = NoResult,
      Error = Some \<lparr>Code = code, Message = message, Data = data\<rparr>\<rparr>"

section \<open>Evaluation and helper lemmas\<close>

lemmas sample_defs = sampleDB_def brokenScanDB_def brokenCursorDB_def defaultDBConfig_def
  readOnly_def allowAll_def allowNone_def sampleManager_def sampleServer_def sampleGlobals_def
  emptyWorld_def incoming_def errorResponse_def

lemmas string_defs = asciiStrings_def toUpperChar_def toLowerChar_def isSpace_def HasPrefix_def

lemma HasPrefix_head: "HasPrefix s (a # p) \<Longrightarrow> HasPrefix s (b # q) \<Longrightarrow> a = b"
  by (cases s) (auto simp: HasPrefix_def)

lemma HasPrefix_second: "HasPrefix s (a # b # p) \<Longrightarrow> HasPrefix s (c # d # q) \<Longrightarrow> b = d"
  by (cases s; cases "tl s") (auto simp: HasPrefix_def)

lemma keyword_clash:
  "HasPrefix u ''INSERT'' \<Longrightarrow> \<not> HasPrefix u ''UPDATE'' \<and> \<not> HasPrefix u ''DELETE''
      \<and> \<not> HasPrefix u ''DROP'' \<and> \<not> HasPrefix u ''TRUNCATE''"
  "HasPrefix u ''UPDATE'' \<Longrightarrow> \<not> HasPrefix u ''INSERT'' \<and> \<not> HasPrefix u ''DELETE''
      \<and> \<not> HasPrefix u ''DROP'' \<and> \<not> HasPrefix u ''TRUNCATE''"
  "HasPrefix u ''DELETE'' \<Longrightarrow> \<not> HasPrefix u ''INSERT'' \<and> \<not> HasPrefix u ''UPDATE''
      \<and> \<not> HasPrefix u ''DROP'' \<and> \<not> HasPrefix u ''TRUNCATE''"
  "HasPrefix u ''DROP'' \<or> HasPrefix u ''TRUNCATE'' \<Longrightarrow> \<not> HasPrefix u ''INSERT''
      \<and> \<not> HasPrefix u ''UPDATE'' \<and> \<not> HasPrefix u ''DELETE'' \<and> \<not> HasPrefix u ''SELECT''
      \<and> \<not> HasPrefix u ''SHOW'' \<and> \<not> HasPrefix u ''DESCRIBE''"
  by (auto dest: HasPrefix_head HasPrefix_second)

lemma sendError_eq:
  "sendError i c msg dat w = w\<lparr>written := written w @ [errorResponse i c msg dat]\<rparr>"
  by (simp add: sendError_def sendResponse_def errorResponse_def)

lemma sendError_written:
  "written (sendError i c msg dat w) = written w @ [errorResponse i c msg dat]"
  "calls (sendError i c msg dat w) = calls w"
  "gateway (sendError i c msg dat w) = gateway w"
  by (simp_all add: sendError_eq)

lemma sendResponse_written:
  "written (sendResponse r w) = written w @ [r]"
  "calls (sendResponse r w) = calls w"
  "gateway (sendResponse r w) = gateway w"
  by (simp_all add: sendResponse_def)

lemma ID_errorResponse: "ID (errorResponse i c msg dat) = i"
  by (simp add: errorResponse_def)

section \<open>The run loop\<close>

text \<open>The loop treats a stream line by line: what is left of it runs on from the world
  that the lines before it leave.\<close>

lemma Run_append: "Run lib s (xs @ ys) e w = Run lib s ys e (snd (Run lib s xs EOF w))"
proof (induction xs arbitrary: w)
  case Nil
  show ?case by simp
next
  case (Cons x xs)
  show ?case by (cases x) (simp_all add: Cons.IH)
qed

text \<open>
  Claim C9. The run loop returns without an error exactly when the input ends with the
  end of the stream; when reading fails in any other way it returns the error that
  wraps the failure. It returns in both cases, whatever the lines before.
\<close>

theorem Run_result:
  "fst (Run lib s ls EOF w) = None
   \<and> fst (Run lib s ls (ReadError msg) w) = Some (ReadRequestFailed msg)
   \<and> (fst (Run lib s ls e w) = None) = (e = EOF)"
proof (induction ls arbitrary: w)
  case Nil
  show ?case by (cases e) simp_all
next
  case (Cons x xs)
  show ?case by (cases x) (simp_all add: Cons.IH)
qed

section \<open>One response for each message\<close>

lemma handleMySQLQuery_one:
  "\<exists>r. ID r = i \<and> written (handleMySQLQuery s i raw w) = written w @ [r]"
  by (auto simp: handleMySQLQuery_def sendError_written sendResponse_written toolResponse_def
      ID_errorResponse Let_def split: sum.splits prod.splits returned.splits)

lemma handleMySQLExecute_one:
  "\<exists>r. ID r = i \<and> written (handleMySQLExecute lib s i raw w) = written w @ [r]"
  by (auto simp: handleMySQLExecute_def sendError_written sendResponse_written toolResponse_def
      ID_errorResponse Let_def split: sum.splits prod.splits returned.splits)

lemma handleCallTool_one:
  "\<exists>r. ID r = ID message \<and> written (handleCallTool lib s message w) = written w @ [r]"
  unfolding handleCallTool_def Let_def
  using handleMySQLQuery_one handleMySQLExecute_one
  by (auto simp: sendError_written ID_errorResponse split: sum.splits)

lemma handleMessage_responses:
  "\<exists>r. ID r = ID message \<and> written (handleMessage lib s message w) =
     written w @ (if Method message = ''initialized'' then [] else [r])"
  unfolding handleMessage_def handleInitialize_def handleToolsList_def
  using handleCallTool_one[of message lib s w]
  by (auto simp: sendError_written sendResponse_written ID_errorResponse)

text \<open>
  Claim C5, as the code has it. The dispatcher tells a notification from a request by
  the method alone. For a line that decodes to a message, at any place of the input, it
  writes exactly one response, which carries the id of the message (also the \<^verbatim>\<open>nil\<close>
  id of a message without one), unless the method is \<^verbatim>\<open>initialized\<close>; for that method
  it writes nothing, with or without an id.
\<close>

theorem Run_line_responses:
  "\<exists>r. ID r = ID message \<and>
     written (snd (Run lib s (before @ [Envelope message]) EOF w)) =
       written (snd (Run lib s before EOF w))
         @ (if Method message = ''initialized'' then [] else [r])"
  using handleMessage_responses[of message lib s "snd (Run lib s before EOF w)"]
  by (simp add: Run_append[of lib s before "[Envelope message]"])

text \<open>
  Claim C5 as stated fails twice: a message without an id whose method is
  \<^verbatim>\<open>tools/list\<close> (a notification) is answered, and a message with the id \<open>1\<close> whose
  method is \<^verbatim>\<open>initialized\<close> (a request) is not.
\<close>

theorem notification_answered_request_unanswered:
  "written (snd (Run asciiStrings (sampleServer readOnly)
                   [Envelope (incoming JNull ''tools/list'' None)] EOF emptyWorld))
     = [\<lparr>JSONRPC = ''2.0'', ID = JNull, Method = '''', Params = None,
          Result = ToolsListResult, Error = None\<rparr>]
   \<and> written (snd (Run asciiStrings (sampleServer readOnly)
                   [Envelope (incoming (JNumber ''1'') ''initialized'' None)] EOF emptyWorld))
     = []"
  by (simp add: handleMessage_def handleToolsList_def sendResponse_def sample_defs)

section \<open>A line that is no JSON message\<close>

text \<open>
  Claim C6. A line that is no JSON message makes the loop write exactly one response, the
  error with code \<open>-32700\<close> and the \<^verbatim>\<open>nil\<close> id, and nothing else changes: this is so
  for the line alone, from any world, and at any place of the input, where what has been
  written grows by that one response and no call is made. The loop does not end there:
  it goes on with the lines after it, a message on the next line is answered as it would
  be otherwise, and the loop returns without an error once the stream ends. (\<^verbatim>\<open>ID\<close>
  is tagged \<^verbatim>\<open>omitempty\<close>, so the written text of that response has no \<^verbatim>\<open>id\<close>
  member.)
\<close>

theorem Run_parse_failure:
  "Run lib s [Malformed msg] EOF w =
     (None, w\<lparr>written := written w @
        [\<lparr>JSONRPC = ''2.0'', ID = JNull, Method = '''', Params = None, Result = NoResult,
          Error = Some \<lparr>Code = - 32700, Message = ParseJSONFailed,
                         Data = TextData msg\<rparr>\<rparr>]\<rparr>)
   \<and> written (snd (Run lib s (before @ [Malformed msg]) EOF w)) =
       written (snd (Run lib s before EOF w)) @
        [\<lparr>JSONRPC = ''2.0'', ID = JNull, Method = '''', Params = None, Result = NoResult,
          Error = Some \<lparr>Code = - 32700, Message = ParseJSONFailed,
                         Data = TextData msg\<rparr>\<rparr>]
   \<and> calls (snd (Run lib s (before @ [Malformed msg]) EOF w))
       = calls (snd (Run lib s before EOF w))
   \<and> gateway (snd (Run lib s (before @ [Malformed msg]) EOF w))
       = gateway (snd (Run lib s before EOF w))
   \<and> Run lib s (before @ Malformed msg # rest) e w =
       Run lib s rest e
         ((snd (Run lib s before EOF w))\<lparr>written := written (snd (Run lib s before EOF w)) @
            [\<lparr>JSONRPC = ''2.0'', ID = JNull, Method = '''', Params = None, Result = NoResult,
              Error = Some \<lparr>Code = - 32700, Message = ParseJSONFailed,
                             Data = TextData msg\<rparr>\<rparr>]\<rparr>)
   \<and> (\<exists>r. ID r = ID message \<and>
         written (snd (Run lib s (before @ [Malformed msg, Envelope message]) EOF w)) =
           written (snd (Run lib s before EOF w)) @
            \<lparr>JSONRPC = ''2.0'', ID = JNull, Method = '''', Params = None, Result = NoResult,
              Error = Some \<lparr>Code = - 32700, Message = ParseJSONFailed,
                             Data = TextData msg\<rparr>\<rparr>
            # (if Method message = ''initialized'' then [] else [r]))
   \<and> fst (Run lib s (before @ Malformed msg # rest) EOF w) = None"
proof (intro conjI)
  let ?R = "\<lparr>JSONRPC = ''2.0'', ID = JNull, Method = '''', Params = None, Result = NoResult,
          Error = Some \<lparr>Code = - 32700, Message = ParseJSONFailed,
                         Data = TextData msg\<rparr>\<rparr>"
  let ?w = "snd (Run lib s before EOF w)"
  show "Run lib s [Malformed msg] EOF w = (None, w\<lparr>written := written w @ [?R]\<rparr>)"
    by (simp add: sendError_def sendResponse_def)
  have step: "snd (Run lib s (before @ [Malformed msg]) EOF w) = ?w\<lparr>written := written ?w @ [?R]\<rparr>"
    by (simp add: Run_append[of lib s before "[Malformed msg]"] sendError_def
        sendResponse_def)
  show "written (snd (Run lib s (before @ [Malformed msg]) EOF w)) = written ?w @ [?R]"
    by (simp add: step)
  show "calls (snd (Run lib s (before @ [Malformed msg]) EOF w)) = calls ?w"
    by (simp add: step)
  show "gateway (snd (Run lib s (before @ [Malformed msg]) EOF w)) = gateway ?w"
    by (simp add: step)
  show "Run lib s (before @ Malformed msg # rest) e w =
       Run lib s rest e (?w\<lparr>written := written ?w @ [?R]\<rparr>)"
    by (simp add: Run_append[of lib s before "Malformed msg # rest"] sendError_def
        sendResponse_def)
  show "\<exists>r. ID r = ID message \<and>
         written (snd (Run lib s (before @ [Malformed msg, Envelope message]) EOF w)) =
           written ?w @ ?R # (if Method message = ''initialized'' then [] else [r])"
  proof -
    obtain r where r: "ID r = ID message"
      "written (handleMessage lib s message (?w\<lparr>written := written ?w @ [?R]\<rparr>)) =
         written (?w\<lparr>written := written ?w @ [?R]\<rparr>)
           @ (if Method message = ''initialized'' then [] else [r])"
      using handleMessage_responses[of message lib s "?w\<lparr>written := written ?w @ [?R]\<rparr>"]
      by (elim exE conjE)
    have "snd (Run lib s (before @ [Malformed msg, Envelope message]) EOF w)
            = handleMessage lib s message (?w\<lparr>written := written ?w @ [?R]\<rparr>)"
      by (simp add: Run_append[of lib s before "[Malformed msg, Envelope message]"]
          sendError_def sendResponse_def)
    then show ?thesis using r by auto
  qed
  show "fst (Run lib s (before @ Malformed msg # rest) EOF w) = None"
  proof -
    have "fst (Run lib s ls EOF w') = None" for ls w'
    proof (induction ls arbitrary: w')
      case Nil
      show ?case by simp
    next
      case (Cons x xs)
      show ?case by (cases x) (simp_all add: Cons.IH)
    qed
    then show ?thesis .
  qed
qed

theorem Run_parse_failure_witness:
  "Run asciiStrings (sampleServer readOnly)
       [Malformed ''unexpected end of JSON input'',
        Envelope (incoming (JNumber ''1'') ''tools/list'' None)] EOF emptyWorld
     = (None,
        \<lparr>written =
           [\<lparr>JSONRPC = ''2.0'', ID = JNull, Method = '''', Params = None, Result = NoResult,
             Error = Some \<lparr>Code = - 32700, Message = ParseJSONFailed,
                            Data = TextData ''unexpected end of JSON input''\<rparr>\<rparr>,
            \<lparr>JSONRPC = ''2.0'', ID = JNumber ''1'', Method = '''', Params = None,
             Result = ToolsListResult, Error = None\<rparr>],
         calls = [], gateway = []\<rparr>)"
  using Run_parse_failure[of asciiStrings "sampleServer readOnly"
      "''unexpected end of JSON input''" emptyWorld "[]"
      "[Envelope (incoming (JNumber ''1'') ''tools/list'' None)]" EOF
      "incoming (JNumber ''1'') ''tools/list'' None"]
  by (simp add: handleMessage_def handleToolsList_def sendResponse_def sample_defs)

section \<open>The read gate\<close>

lemma scanRows_Inl: "scanRows cols xs acc = Inl e \<Longrightarrow> \<not> isPermissionDenied e"
  by (induction cols xs acc rule: scanRows.induct) (auto split: if_splits)

lemma Query_denied:
  "\<not> AllowQuery (Permission (DBManager.config m))
   \<Longrightarrow> Query m dbName query tr = (Failure None QueryNotAllowed, tr)"
  by (simp add: Query_def)

lemma Query_allowed_error:
  assumes "AllowQuery (Permission (DBManager.config m))"
    and "fst (Query m dbName query tr) = Failure r e"
  shows "\<not> isPermissionDenied e"
  using assms
  by (auto simp: Query_def GetDB_def queryFailed_def Let_def
      split: option.splits sum.splits dest: scanRows_Inl)

lemma Query_other_flags:
  "Query (m\<lparr>DBManager.config := (DBManager.config m)\<lparr>Permission :=
       (Permission (DBManager.config m))\<lparr>AllowInsert := i, AllowUpdate := u,
          AllowDelete := d\<rparr>\<rparr>\<rparr>)
     dbName query tr = Query m dbName query tr"
  by (simp add: Query_def GetDB_def)

lemma Query_dispatched:
  "AllowQuery (Permission (DBManager.config m)) \<Longrightarrow> connections m dbName = Some d
   \<Longrightarrow> snd (Query m dbName query tr) = tr @ [QueryCall query]"
  by (simp add: Query_def GetDB_def Let_def split: sum.splits option.splits)

lemma handleMySQLQuery_denied:
  "\<not> AllowQuery (Permission (config s)) \<Longrightarrow>
   handleMySQLQuery s i raw w
     = w\<lparr>written := written w @
          [errorResponse i (- 32000) (ErrorText QueryNotAllowed) NoData]\<rparr>"
  by (simp add: handleMySQLQuery_def sendError_eq)

lemma handleMySQLQuery_gateway:
  "unmarshalSQLParams raw = Inr p \<Longrightarrow> AllowQuery (Permission (config s)) \<Longrightarrow>
   gateway (handleMySQLQuery s i raw w) = gateway w @ [GatewayQuery ''default'' (SQL p)]
   \<and> calls (handleMySQLQuery s i raw w)
       = snd (Query (dbManager s) ''default'' (SQL p) (calls w))"
  by (auto simp: handleMySQLQuery_def sendError_eq sendResponse_def Let_def
      split: sum.splits prod.splits returned.splits)

text \<open>With reading allowed in the one configuration that the server and its gateway
  share, no response of the query tool is a permission error.\<close>

lemma handleMySQLQuery_allowed:
  assumes "config s = DBManager.config (dbManager s)"
    and "AllowQuery (Permission (config s))"
    and "isPermissionDenied e"
  shows "written (handleMySQLQuery s i raw w)
           \<noteq> written w @ [errorResponse i (- 32000) (ErrorText e) NoData]"
proof (cases "unmarshalSQLParams raw")
  case (Inl err)
  then show ?thesis using assms(2)
    by (simp add: handleMySQLQuery_def sendError_written errorResponse_def)
next
  case (Inr p)
  obtain ret tr where q: "Query (dbManager s) ''default'' (SQL p) (calls w) = (ret, tr)"
    by (cases "Query (dbManager s) ''default'' (SQL p) (calls w)")
  show ?thesis
  proof (cases ret)
    case (Failure r err)
    have "\<not> isPermissionDenied err"
      using Query_allowed_error[of "dbManager s" "''default''" "SQL p" "calls w" r err]
        assms(1,2) q Failure by simp
    then have "err \<noteq> e" using assms(3) by auto
    then show ?thesis using assms(2) Inr q Failure
      by (simp add: handleMySQLQuery_def sendError_written errorResponse_def Let_def)
  next
    case (Success res)
    then show ?thesis using assms(2) Inr q
      by (simp add: handleMySQLQuery_def sendError_written sendResponse_written
          errorResponse_def toolResponse_def Let_def split: sum.splits)
  qed
qed

lemma handleMySQLQuery_other_flags:
  "handleMySQLQuery
     (s\<lparr>config := (config s)\<lparr>Permission :=
            (Permission (config s))\<lparr>AllowInsert := i, AllowUpdate := u, AllowDelete := d\<rparr>\<rparr>,
        dbManager := (dbManager s)\<lparr>DBManager.config :=
            (DBManager.config (dbManager s))\<lparr>Permission :=
               (Permission (DBManager.config (dbManager s)))\<lparr>AllowInsert := i,
                  AllowUpdate := u, AllowDelete := d\<rparr>\<rparr>\<rparr>\<rparr>)
     i' raw w
   = handleMySQLQuery s i' raw w"
  by (simp add: handleMySQLQuery_def Query_other_flags Let_def
      split: sum.splits prod.splits returned.splits)

text \<open>
  Claim C2. For every statement and every configuration, \<^verbatim>\<open>Query\<close> fails with a
  permission error exactly when \<^verbatim>\<open>AllowQuery\<close> is false, and it then returns the error
  with the list of backend calls as it was; the other three flags change nothing of what
  \<^verbatim>\<open>Query\<close> does; and the handler of the query tool, when \<^verbatim>\<open>AllowQuery\<close> is false,
  answers with that error whatever its arguments are, with no call to the gateway or the
  backend. Neither of them looks at the statement before the gate. When \<^verbatim>\<open>AllowQuery\<close>
  is true the gate passes: \<^verbatim>\<open>Query\<close> sends the statement to the backend of a
  configured connection, and the handler passes the statement it decodes to \<^verbatim>\<open>Query\<close>.
  For a server that shares its configuration with its gateway, as \<^verbatim>\<open>main\<close> builds it,
  the response of the query tool is a permission error exactly when \<^verbatim>\<open>AllowQuery\<close> is
  false; and the other three flags change nothing of what the handler does.
\<close>

theorem Query_read_gate:
  "((\<exists>r e. fst (Query m dbName query tr) = Failure r e \<and> isPermissionDenied e)
      = (\<not> AllowQuery (Permission (DBManager.config m))))
   \<and> (\<not> AllowQuery (Permission (DBManager.config m))
        \<longrightarrow> Query m dbName query tr = (Failure None QueryNotAllowed, tr))
   \<and> Query (m\<lparr>DBManager.config := (DBManager.config m)\<lparr>Permission :=
          (Permission (DBManager.config m))\<lparr>AllowInsert := i, AllowUpdate := u,
             AllowDelete := d\<rparr>\<rparr>\<rparr>)
        dbName query tr = Query m dbName query tr
   \<and> (\<not> AllowQuery (Permission (config s))
        \<longrightarrow> handleMySQLQuery s id' rawParams w
            = w\<lparr>written := written w @
                  [errorResponse id' (- 32000) (ErrorText QueryNotAllowed) NoData]\<rparr>)
   \<and> (AllowQuery (Permission (DBManager.config m)) \<and> connections m dbName = Some db'
        \<longrightarrow> snd (Query m dbName query tr) = tr @ [QueryCall query])
   \<and> (config s = DBManager.config (dbManager s)
        \<longrightarrow> (\<exists>e. isPermissionDenied e
                  \<and> written (handleMySQLQuery s id' rawParams w)
                      = written w @ [errorResponse id' (- 32000) (ErrorText e) NoData])
            = (\<not> AllowQuery (Permission (config s))))
   \<and> (AllowQuery (Permission (config s)) \<and> unmarshalSQLParams rawParams = Inr p
        \<longrightarrow> gateway (handleMySQLQuery s id' rawParams w)
              = gateway w @ [GatewayQuery ''default'' (SQL p)]
            \<and> calls (handleMySQLQuery s id' rawParams w)
              = snd (Query (dbManager s) ''default'' (SQL p) (calls w)))
   \<and> handleMySQLQuery
        (s\<lparr>config := (config s)\<lparr>Permission :=
               (Permission (config s))\<lparr>AllowInsert := i, AllowUpdate := u,
                  AllowDelete := d\<rparr>\<rparr>,
           dbManager := (dbManager s)\<lparr>DBManager.config :=
               (DBManager.config (dbManager s))\<lparr>Permission :=
                  (Permission (DBManager.config (dbManager s)))\<lparr>AllowInsert := i,
                     AllowUpdate := u, AllowDelete := d\<rparr>\<rparr>\<rparr>\<rparr>)
        id' rawParams w
      = handleMySQLQuery s id' rawParams w"
proof (intro conjI impI)
  show "(\<exists>r e. fst (Query m dbName query tr) = Failure r e \<and> isPermissionDenied e)
      = (\<not> AllowQuery (Permission (DBManager.config m)))"
  proof (cases "AllowQuery (Permission (DBManager.config m))")
    case True
    then show ?thesis using Query_allowed_error by blast
  next
    case False
    then show ?thesis by (simp add: Query_denied)
  qed
  show "Query m dbName query tr = (Failure None QueryNotAllowed, tr)"
    if "\<not> AllowQuery (Permission (DBManager.config m))"
    using Query_denied[OF that] .
  show "Query (m\<lparr>DBManager.config := (DBManager.config m)\<lparr>Permission :=
          (Permission (DBManager.config m))\<lparr>AllowInsert := i, AllowUpdate := u,
             AllowDelete := d\<rparr>\<rparr>\<rparr>)
        dbName query tr = Query m dbName query tr"
    by (rule Query_other_flags)
  show "handleMySQLQuery s id' rawParams w
            = w\<lparr>written := written w @
                  [errorResponse id' (- 32000) (ErrorText QueryNotAllowed) NoData]\<rparr>"
    if "\<not> AllowQuery (Permission (config s))"
    using handleMySQLQuery_denied[OF that] .
  show "snd (Query m dbName query tr) = tr @ [QueryCall query]"
    if "AllowQuery (Permission (DBManager.config m)) \<and> connections m dbName = Some db'"
    using Query_dispatched[of m dbName db' query tr] that by simp
  show "(\<exists>e. isPermissionDenied e
                  \<and> written (handleMySQLQuery s id' rawParams w)
                      = written w @ [errorResponse id' (- 32000) (ErrorText e) NoData])
            = (\<not> AllowQuery (Permission (config s)))"
    if same: "config s = DBManager.config (dbManager s)"
  proof (cases "AllowQuery (Permission (config s))")
    case True
    then show ?thesis using handleMySQLQuery_allowed[OF same True] by blast
  next
    case False
    have "isPermissionDenied QueryNotAllowed" by simp
    moreover have "written (handleMySQLQuery s id' rawParams w)
        = written w @ [errorResponse id' (- 32000) (ErrorText QueryNotAllowed) NoData]"
      by (simp add: handleMySQLQuery_denied[OF False])
    ultimately show ?thesis using False by blast
  qed
  show "gateway (handleMySQLQuery s id' rawParams w)
              = gateway w @ [GatewayQuery ''default'' (SQL p)]"
    and "calls (handleMySQLQuery s id' rawParams w)
              = snd (Query (dbManager s) ''default'' (SQL p) (calls w))"
    if "AllowQuery (Permission (config s)) \<and> unmarshalSQLParams rawParams = Inr p"
    using handleMySQLQuery_gateway[of rawParams p s id' w] that by simp_all
  show "handleMySQLQuery
        (s\<lparr>config := (config s)\<lparr>Permission :=
               (Permission (config s))\<lparr>AllowInsert := i, AllowUpdate := u,
                  AllowDelete := d\<rparr>\<rparr>,
           dbManager := (dbManager s)\<lparr>DBManager.config :=
               (DBManager.config (dbManager s))\<lparr>Permission :=
                  (Permission (DBManager.config (dbManager s)))\<lparr>AllowInsert := i,
                     AllowUpdate := u, AllowDelete := d\<rparr>\<rparr>\<rparr>\<rparr>)
        id' rawParams w
      = handleMySQLQuery s id' rawParams w"
    by (rule handleMySQLQuery_other_flags)
qed

lemma sample_query_arguments:
  "unmarshalSQLParams (Some (JObject [(''sql'', JString ''SELECT 1'')])) = Inr \<lparr>SQL = ''SELECT 1''\<rparr>"
  by (simp add: unmarshalSQLParams_def fieldValues_def toLowerChar_def)

theorem Query_read_gate_witness:
  "\<not> AllowQuery (Permission (DBManager.config (sampleManager sampleDB allowNone)))
   \<and> Query (sampleManager sampleDB allowNone) ''default'' ''SELECT 1'' []
       = (Failure None QueryNotAllowed, [])
   \<and> \<not> AllowQuery (Permission (config (sampleServer allowNone)))
   \<and> handleMySQLQuery (sampleServer allowNone) (JNumber ''1'')
         (Some (JObject [(''sql'', JString ''SELECT 1'')])) emptyWorld
       = \<lparr>written = [errorResponse (JNumber ''1'') (- 32000) (ErrorText QueryNotAllowed) NoData],
          calls = [], gateway = []\<rparr>
   \<and> fst (Query (sampleManager sampleDB readOnly) ''default'' ''SELECT 1'' [])
       = Success \<lparr>Columns = [''id'', ''name''],
                  Rows = [[VInt64 1, VString ''ann''], [VInt64 2, VNil]], Error = None\<rparr>
   \<and> AllowQuery (Permission (DBManager.config (sampleManager sampleDB readOnly)))
   \<and> connections (sampleManager sampleDB readOnly) ''default'' = Some sampleDB
   \<and> snd (Query (sampleManager sampleDB readOnly) ''default'' ''SELECT 1'' [])
       = [QueryCall ''SELECT 1'']
   \<and> config (sampleServer allowNone) = DBManager.config (dbManager (sampleServer allowNone))
   \<and> config (sampleServer readOnly) = DBManager.config (dbManager (sampleServer readOnly))
   \<and> AllowQuery (Permission (config (sampleServer readOnly)))
   \<and> unmarshalSQLParams (Some (JObject [(''sql'', JString ''SELECT 1'')]))
       = Inr \<lparr>SQL = ''SELECT 1''\<rparr>
   \<and> handleMySQLQuery (sampleServer readOnly) (JNumber ''1'')
         (Some (JObject [(''sql'', JString ''SELECT 1'')])) emptyWorld
       = \<lparr>written = [toolResponse (JNumber ''1'') ''{}''],
          calls = [QueryCall ''SELECT 1''],
          gateway = [GatewayQuery ''default'' ''SELECT 1'']\<rparr>"
  using
    Query_read_gate[of "sampleManager sampleDB allowNone" "''default''" "''SELECT 1''" "[]"
      False False False "sampleServer allowNone" "JNumber ''1''"
      "Some (JObject [(''sql'', JString ''SELECT 1'')])" emptyWorld sampleDB
      "\<lparr>SQL = ''SELECT 1''\<rparr>"]
    Query_read_gate[of "sampleManager sampleDB readOnly" "''default''" "''SELECT 1''" "[]"
      False False False "sampleServer readOnly" "JNumber ''1''"
      "Some (JObject [(''sql'', JString ''SELECT 1'')])" emptyWorld sampleDB
      "\<lparr>SQL = ''SELECT 1''\<rparr>"]
  by (simp add: sample_defs Query_def GetDB_def handleMySQLQuery_def sample_query_arguments
      sendResponse_def)

section \<open>The gate for INSERT, UPDATE and DELETE\<close>

lemma Execute_denied:
  "executeDenied (Permission (DBManager.config m)) (TrimSpace lib (ToLower lib query)) = Some e
   \<Longrightarrow> Execute lib m dbName query tr = (Failure None e, tr)"
  by (simp add: Execute_def)

lemma Execute_dispatched:
  "executeDenied (Permission (DBManager.config m)) (TrimSpace lib (ToLower lib query)) = None
   \<Longrightarrow> connections m dbName = Some d
   \<Longrightarrow> snd (Execute lib m dbName query tr) = tr @ [ExecCall query]"
  by (simp add: Execute_def GetDB_def Let_def split: sum.splits option.splits prod.splits)

lemma executeDenied_insert:
  "HasPrefix lq ''insert'' \<Longrightarrow>
   executeDenied p lq = (if AllowInsert p then None else Some InsertNotAllowed)"
  by (simp add: executeDenied_def)

lemma executeDenied_update:
  "HasPrefix lq ''update'' \<Longrightarrow>
   executeDenied p lq = (if AllowUpdate p then None else Some UpdateNotAllowed)"
  using HasPrefix_head[of lq "CHR ''u''" "''pdate''" "CHR ''i''" "''nsert''"]
  by (auto simp: executeDenied_def)

lemma executeDenied_delete:
  "HasPrefix lq ''delete'' \<Longrightarrow>
   executeDenied p lq = (if AllowDelete p then None else Some DeleteNotAllowed)"
  using HasPrefix_head[of lq "CHR ''d''" "''elete''" "CHR ''i''" "''nsert''"]
    HasPrefix_head[of lq "CHR ''d''" "''elete''" "CHR ''u''" "''pdate''"]
  by (auto simp: executeDenied_def)

lemma Execute_gate:
  assumes "connections m dbName = Some d"
    and "executeDenied (Permission (DBManager.config m)) (TrimSpace lib (ToLower lib query))
         = (if flag then None else Some e)"
  shows "(snd (Execute lib m dbName query tr) = tr @ [ExecCall query]) = flag
         \<and> (\<not> flag \<longrightarrow> Execute lib m dbName query tr = (Failure None e, tr))"
proof (cases flag)
  case True
  then show ?thesis using assms Execute_dispatched by simp
next
  case False
  then show ?thesis using assms Execute_denied[of m lib query e dbName tr] by simp
qed

lemma Execute_mutations:
  assumes "connections m dbName = Some d"
  shows "(HasPrefix (TrimSpace lib (ToLower lib query)) ''insert'' \<longrightarrow>
            (snd (Execute lib m dbName query tr) = tr @ [ExecCall query])
              = AllowInsert (Permission (DBManager.config m))
          \<and> (\<not> AllowInsert (Permission (DBManager.config m)) \<longrightarrow>
                Execute lib m dbName query tr = (Failure None InsertNotAllowed, tr)))
       \<and> (HasPrefix (TrimSpace lib (ToLower lib query)) ''update'' \<longrightarrow>
            (snd (Execute lib m dbName query tr) = tr @ [ExecCall query])
              = AllowUpdate (Permission (DBManager.config m))
          \<and> (\<not> AllowUpdate (Permission (DBManager.config m)) \<longrightarrow>
                Execute lib m dbName query tr = (Failure None UpdateNotAllowed, tr)))
       \<and> (HasPrefix (TrimSpace lib (ToLower lib query)) ''delete'' \<longrightarrow>
            (snd (Execute lib m dbName query tr) = tr @ [ExecCall query])
              = AllowDelete (Permission (DBManager.config m))
          \<and> (\<not> AllowDelete (Permission (DBManager.config m)) \<longrightarrow>
                Execute lib m dbName query tr = (Failure None DeleteNotAllowed, tr)))"
  using Execute_gate[OF assms, of lib query _ _ tr]
    executeDenied_insert[of "TrimSpace lib (ToLower lib query)" "Permission (DBManager.config m)"]
    executeDenied_update[of "TrimSpace lib (ToLower lib query)" "Permission (DBManager.config m)"]
    executeDenied_delete[of "TrimSpace lib (ToLower lib query)" "Permission (DBManager.config m)"]
  by blast

lemma handleExecute_mutations:
  assumes "args ''sql'' = Some (JString sql)"
  shows "(HasPrefix (TrimSpace lib (ToUpper lib sql)) ''INSERT'' \<longrightarrow>
            (snd (handleExecute lib marshal g args tr) = tr @ [ExecCall sql]) = allowInsert g
          \<and> (\<not> allowInsert g \<longrightarrow>
                handleExecute lib marshal g args tr = (Return (Inl NoInsertPermission), tr)))
       \<and> (HasPrefix (TrimSpace lib (ToUpper lib sql)) ''UPDATE'' \<longrightarrow>
            (snd (handleExecute lib marshal g args tr) = tr @ [ExecCall sql]) = allowUpdate g
          \<and> (\<not> allowUpdate g \<longrightarrow>
                handleExecute lib marshal g args tr = (Return (Inl NoUpdatePermission), tr)))
       \<and> (HasPrefix (TrimSpace lib (ToUpper lib sql)) ''DELETE'' \<longrightarrow>
            (snd (handleExecute lib marshal g args tr) = tr @ [ExecCall sql]) = allowDelete g
          \<and> (\<not> allowDelete g \<longrightarrow>
                handleExecute lib marshal g args tr = (Return (Inl NoDeletePermission), tr)))"
proof (intro conjI impI)
  assume k: "HasPrefix (TrimSpace lib (ToUpper lib sql)) ''INSERT''"
  show "(snd (handleExecute lib marshal g args tr) = tr @ [ExecCall sql]) = allowInsert g"
    using assms k keyword_clash(1)[OF k]
    by (auto simp: handleExecute_def Let_def split: sum.splits)
  show "handleExecute lib marshal g args tr = (Return (Inl NoInsertPermission), tr)"
    if "\<not> allowInsert g"
    using assms k that by (simp add: handleExecute_def)
next
  assume k: "HasPrefix (TrimSpace lib (ToUpper lib sql)) ''UPDATE''"
  show "(snd (handleExecute lib marshal g args tr) = tr @ [ExecCall sql]) = allowUpdate g"
    using assms k keyword_clash(2)[OF k]
    by (auto simp: handleExecute_def Let_def split: sum.splits)
  show "handleExecute lib marshal g args tr = (Return (Inl NoUpdatePermission), tr)"
    if "\<not> allowUpdate g"
    using assms k that keyword_clash(2)[OF k] by (simp add: handleExecute_def)
next
  assume k: "HasPrefix (TrimSpace lib (ToUpper lib sql)) ''DELETE''"
  show "(snd (handleExecute lib marshal g args tr) = tr @ [ExecCall sql]) = allowDelete g"
    using assms k keyword_clash(3)[OF k]
    by (auto simp: handleExecute_def Let_def split: sum.splits)
  show "handleExecute lib marshal g args tr = (Return (Inl NoDeletePermission), tr)"
    if "\<not> allowDelete g"
    using assms k that keyword_clash(3)[OF k] by (simp add: handleExecute_def)
qed

text \<open>
  Claim C3. Take a statement that, lower-cased and trimmed, begins with \<^verbatim>\<open>insert\<close>,
  \<^verbatim>\<open>update\<close> or \<^verbatim>\<open>delete\<close>. \<^verbatim>\<open>Execute\<close>, on a connection that is configured, sends
  it to the backend exactly when the flag of its kind is true; when the flag is false it
  returns the permission error of that kind and the list of backend calls is as it was.
  \<^verbatim>\<open>handleExecute\<close> of the go-mcp server does the same with its three flags, for a
  statement that begins with the keyword once upper-cased and trimmed. Lower-casing,
  upper-casing and trimming are those of package \<^verbatim>\<open>strings\<close>, whatever they do to a
  string, so the statements are all those that the code takes for one of the three
  kinds. The check comes before the call to the backend, and the backend is called once.
\<close>

theorem mutation_gate:
  "(connections m dbName = Some d \<longrightarrow>
      (HasPrefix (TrimSpace lib (ToLower lib query)) ''insert'' \<longrightarrow>
          (snd (Execute lib m dbName query tr) = tr @ [ExecCall query])
            = AllowInsert (Permission (DBManager.config m))
        \<and> (\<not> AllowInsert (Permission (DBManager.config m)) \<longrightarrow>
              Execute lib m dbName query tr = (Failure None InsertNotAllowed, tr)))
    \<and> (HasPrefix (TrimSpace lib (ToLower lib query)) ''update'' \<longrightarrow>
          (snd (Execute lib m dbName query tr) = tr @ [ExecCall query])
            = AllowUpdate (Permission (DBManager.config m))
        \<and> (\<not> AllowUpdate (Permission (DBManager.config m)) \<longrightarrow>
              Execute lib m dbName query tr = (Failure None UpdateNotAllowed, tr)))
    \<and> (HasPrefix (TrimSpace lib (ToLower lib query)) ''delete'' \<longrightarrow>
          (snd (Execute lib m dbName query tr) = tr @ [ExecCall query])
            = AllowDelete (Permission (DBManager.config m))
        \<and> (\<not> AllowDelete (Permission (DBManager.config m)) \<longrightarrow>
              Execute lib m dbName query tr = (Failure None DeleteNotAllowed, tr))))
   \<and> (args ''sql'' = Some (JString query) \<longrightarrow>
      (HasPrefix (TrimSpace lib (ToUpper lib query)) ''INSERT'' \<longrightarrow>
          (snd (handleExecute lib marshal g args tr) = tr @ [ExecCall query]) = allowInsert g
        \<and> (\<not> allowInsert g \<longrightarrow>
              handleExecute lib marshal g args tr = (Return (Inl NoInsertPermission), tr)))
    \<and> (HasPrefix (TrimSpace lib (ToUpper lib query)) ''UPDATE'' \<longrightarrow>
          (snd (handleExecute lib marshal g args tr) = tr @ [ExecCall query]) = allowUpdate g
        \<and> (\<not> allowUpdate g \<longrightarrow>
              handleExecute lib marshal g args tr = (Return (Inl NoUpdatePermission), tr)))
    \<and> (HasPrefix (TrimSpace lib (ToUpper lib query)) ''DELETE'' \<longrightarrow>
          (snd (handleExecute lib marshal g args tr) = tr @ [ExecCall query]) = allowDelete g
        \<and> (\<not> allowDelete g \<longrightarrow>
              handleExecute lib marshal g args tr = (Return (Inl NoDeletePermission), tr))))"
proof (intro conjI impI)
qed (use Execute_mutations[of m dbName d lib query tr]
      handleExecute_mutations[of args query lib marshal g tr] in blast)+

lemma sample_statements:
  "TrimSpace asciiStrings (ToLower asciiStrings ''INSERT INTO t VALUES (1)'') = ''insert into t values (1)''"
  "TrimSpace asciiStrings (ToUpper asciiStrings ''INSERT INTO t VALUES (1)'') = ''INSERT INTO T VALUES (1)''"
  "TrimSpace asciiStrings (ToLower asciiStrings '' update t set a = 1'') = ''update t set a = 1''"
  "TrimSpace asciiStrings (ToUpper asciiStrings '' update t set a = 1'') = ''UPDATE T SET A = 1''"
  "TrimSpace asciiStrings (ToLower asciiStrings ''Delete from t'') = ''delete from t''"
  "TrimSpace asciiStrings (ToUpper asciiStrings ''Delete from t'') = ''DELETE FROM T''"
  by (simp_all add: string_defs)

theorem mutation_gate_witness:
  "connections (sampleManager sampleDB readOnly) ''default'' = Some sampleDB
   \<and> HasPrefix (TrimSpace asciiStrings (ToLower asciiStrings ''INSERT INTO t VALUES (1)'')) ''insert''
   \<and> \<not> AllowInsert (Permission (DBManager.config (sampleManager sampleDB readOnly)))
   \<and> Execute asciiStrings (sampleManager sampleDB readOnly) ''default'' ''INSERT INTO t VALUES (1)'' []
       = (Failure None InsertNotAllowed, [])
   \<and> HasPrefix (TrimSpace asciiStrings (ToLower asciiStrings '' update t set a = 1'')) ''update''
   \<and> Execute asciiStrings (sampleManager sampleDB readOnly) ''default'' '' update t set a = 1'' []
       = (Failure None UpdateNotAllowed, [])
   \<and> HasPrefix (TrimSpace asciiStrings (ToLower asciiStrings ''Delete from t'')) ''delete''
   \<and> Execute asciiStrings (sampleManager sampleDB readOnly) ''default'' ''Delete from t'' []
       = (Failure None DeleteNotAllowed, [])
   \<and> connections (sampleManager sampleDB allowAll) ''default'' = Some sampleDB
   \<and> AllowInsert (Permission (DBManager.config (sampleManager sampleDB allowAll)))
   \<and> snd (Execute asciiStrings (sampleManager sampleDB allowAll) ''default''
             ''INSERT INTO t VALUES (1)'' [])
       = [ExecCall ''INSERT INTO t VALUES (1)'']
   \<and> [''sql'' \<mapsto> JString ''INSERT INTO t VALUES (1)''] ''sql''
       = Some (JString ''INSERT INTO t VALUES (1)'')
   \<and> HasPrefix (TrimSpace asciiStrings (ToUpper asciiStrings ''INSERT INTO t VALUES (1)'')) ''INSERT''
   \<and> handleExecute asciiStrings (\<lambda>a b. Inr ''{}'') (sampleGlobals False False)
         [''sql'' \<mapsto> JString ''INSERT INTO t VALUES (1)''] []
       = (Return (Inl NoInsertPermission), [])
   \<and> snd (handleExecute asciiStrings (\<lambda>a b. Inr ''{}'') (sampleGlobals True False)
         [''sql'' \<mapsto> JString ''INSERT INTO t VALUES (1)''] [])
       = [ExecCall ''INSERT INTO t VALUES (1)'']
   \<and> HasPrefix (TrimSpace asciiStrings (ToUpper asciiStrings '' update t set a = 1'')) ''UPDATE''
   \<and> handleExecute asciiStrings (\<lambda>a b. Inr ''{}'') (sampleGlobals False False)
         [''sql'' \<mapsto> JString '' update t set a = 1''] []
       = (Return (Inl NoUpdatePermission), [])
   \<and> HasPrefix (TrimSpace asciiStrings (ToUpper asciiStrings ''Delete from t'')) ''DELETE''
   \<and> handleExecute asciiStrings (\<lambda>a b. Inr ''{}'') (sampleGlobals False False)
         [''sql'' \<mapsto> JString ''Delete from t''] []
       = (Return (Inl NoDeletePermission), [])"
  using
    mutation_gate[of "sampleManager sampleDB readOnly" "''default''" sampleDB asciiStrings
      "''INSERT INTO t VALUES (1)''" "[]" "[''sql'' \<mapsto> JString ''INSERT INTO t VALUES (1)'']"
      "\<lambda>a b. Inr ''{}''" "sampleGlobals False False"]
    mutation_gate[of "sampleManager sampleDB readOnly" "''default''" sampleDB asciiStrings
      "'' update t set a = 1''" "[]" "[''sql'' \<mapsto> JString '' update t set a = 1'']"
      "\<lambda>a b. Inr ''{}''" "sampleGlobals False False"]
    mutation_gate[of "sampleManager sampleDB readOnly" "''default''" sampleDB asciiStrings
      "''Delete from t''" "[]" "[''sql'' \<mapsto> JString ''Delete from t'']"
      "\<lambda>a b. Inr ''{}''" "sampleGlobals False False"]
    mutation_gate[of "sampleManager sampleDB allowAll" "''default''" sampleDB asciiStrings
      "''INSERT INTO t VALUES (1)''" "[]" "[''sql'' \<mapsto> JString ''INSERT INTO t VALUES (1)'']"
      "\<lambda>a b. Inr ''{}''" "sampleGlobals True False"]
  by (simp add: sample_defs sample_statements HasPrefix_def)

section \<open>Materializing the rows of a query\<close>

lemma scanRows_Inr:
  "(scanRows cols xs acc = Inr rs) =
   (\<exists>vss. xs = map Inr vss \<and> (\<forall>vs \<in> set vss. length vs = length cols)
          \<and> rs = acc @ map (map convertValue) vss)"
proof (induction xs arbitrary: acc)
  case Nil
  show ?case by auto
next
  case (Cons x xs)
  show ?case
  proof (cases x)
    case (Inl msg)
    then show ?thesis by auto
  next
    case (Inr vs)
    show ?thesis
    proof (cases "length vs = length cols")
      case True
      show ?thesis
      proof
        assume "scanRows cols (x # xs) acc = Inr rs"
        then have "scanRows cols xs (acc @ [map convertValue vs]) = Inr rs"
          using Inr True by simp
        then obtain vss where v: "xs = map Inr vss"
            "\<forall>vs \<in> set vss. length vs = length cols"
            "rs = (acc @ [map convertValue vs]) @ map (map convertValue) vss"
          using Cons.IH by blast
        show "\<exists>vss. x # xs = map Inr vss \<and> (\<forall>vs \<in> set vss. length vs = length cols)
          \<and> rs = acc @ map (map convertValue) vss"
          by (rule exI[of _ "vs # vss"]) (use v Inr True in simp)
      next
        assume "\<exists>vss. x # xs = map Inr vss \<and> (\<forall>vs \<in> set vss. length vs = length cols)
          \<and> rs = acc @ map (map convertValue) vss"
        then obtain vss where v: "x # xs = map Inr vss
          \<and> (\<forall>vs \<in> set vss. length vs = length cols)
          \<and> rs = acc @ map (map convertValue) vss" ..
        then obtain vss' where w: "vss = vs # vss'" "xs = map Inr vss'"
          using Inr by (cases vss) auto
        have "scanRows cols xs (acc @ [map convertValue vs]) = Inr rs"
          unfolding Cons.IH using v w by auto
        then show "scanRows cols (x # xs) acc = Inr rs" using Inr True by simp
      qed
    next
      case False
      then show ?thesis using Inr by (auto simp: Cons_eq_map_conv)
    qed
  qed
qed

lemma scanRows_scan_failure:
  "Inl msg \<in> set xs \<Longrightarrow> \<exists>e. scanRows cols xs acc = Inl e"
  by (induction cols xs acc rule: scanRows.induct) auto

lemma Query_Success:
  assumes "Query m dbName query tr = (Success res, tr')"
  shows "\<exists>d rows vss. connections m dbName = Some d \<and> dbQuery d tr query = Inr rows
           \<and> rowsColumns rows = Inr (Columns res)
           \<and> rowsNext rows = map Inr vss
           \<and> Rows res = map (map convertValue) vss
           \<and> list_all (\<lambda>row. length row = length (Columns res)) (Rows res)"
  using assms
  by (auto simp: Query_def GetDB_def queryFailed_def Let_def scanRows_Inr list_all_iff
      split: option.splits sum.splits if_splits)

lemma Query_Failure_no_rows:
  assumes "fst (Query m dbName query tr) = Failure r e"
  shows "r = None \<or> r = Some \<lparr>Columns = [], Rows = [], Error = Some e\<rparr>"
  using assms
  by (auto simp: Query_def GetDB_def queryFailed_def Let_def
      split: option.splits sum.splits if_splits)

lemma Query_scan_failure:
  assumes "connections m dbName = Some d" "dbQuery d tr query = Inr rows"
    and "Inl msg \<in> set (rowsNext rows)"
  shows "\<exists>r e. fst (Query m dbName query tr) = Failure r e"
proof (cases "rowsColumns rows")
  case (Inl a)
  then show ?thesis using assms
    by (auto simp: Query_def GetDB_def queryFailed_def Let_def)
next
  case (Inr cols)
  obtain e where "scanRows cols (rowsNext rows) [] = Inl e"
    using scanRows_scan_failure[OF assms(3)] by blast
  then show ?thesis using assms Inr
    by (auto simp: Query_def GetDB_def queryFailed_def Let_def)
qed

lemma convertValue_other: "(\<forall>b. v \<noteq> VBytes b) \<Longrightarrow> convertValue v = v"
  by (cases v) simp_all

lemma Query_rows_error:
  assumes "connections m dbName = Some d" "dbQuery d tr query = Inr rows"
    and "rowsErr rows = Some msg"
  shows "\<exists>r e. fst (Query m dbName query tr) = Failure r e"
  using assms
  by (auto simp: Query_def GetDB_def queryFailed_def Let_def split: sum.splits)

lemma scanRows_ok:
  "\<forall>vs \<in> set vss. length vs = length cols \<Longrightarrow>
   scanRows cols (map Inr vss) acc = Inr (acc @ map (map convertValue) vss)"
  unfolding scanRows_Inr by blast

text \<open>\<^verbatim>\<open>Query\<close> succeeds in one way only: reading is allowed, the connection is
  configured, the backend gives a cursor, the cursor gives its columns, every row scans
  with one value for each column, and the cursor ends without an error.\<close>

lemma Query_Success_iff:
  "(Query m dbName query tr = (Success res, tr')) =
   (AllowQuery (Permission (DBManager.config m))
    \<and> (\<exists>d rows vss. connections m dbName = Some d \<and> dbQuery d tr query = Inr rows
          \<and> rowsColumns rows = Inr (Columns res)
          \<and> rowsNext rows = map Inr vss
          \<and> list_all (\<lambda>vs. length vs = length (Columns res)) vss
          \<and> rowsErr rows = None
          \<and> Rows res = map (map convertValue) vss
          \<and> QueryResult.Error res = None
          \<and> tr' = tr @ [QueryCall query]))"
  by (cases res)
    (auto simp: Query_def GetDB_def queryFailed_def Let_def scanRows_Inr scanRows_ok
      list_all_iff split: option.splits sum.splits if_splits)

text \<open>
  Claim C8. When \<^verbatim>\<open>Query\<close> succeeds, the backend gave a cursor all of whose rows
  scanned; the columns of the result are the columns of the cursor, and its rows are the
  rows of the cursor, in the order of the cursor, each with one entry for each column,
  where a byte string has become the string of the same bytes and every other value is
  the value the cursor held. When the scan of some row fails, \<^verbatim>\<open>Query\<close> fails, and
  the result it returns beside the error holds no row. The same holds when the cursor
  ends with an error (\<^verbatim>\<open>rows.Err()\<close>) after any number of rows: the rows read so far
  are not returned. \<^verbatim>\<open>Query\<close> succeeds in that one way only, and no failure of it
  returns a row.
\<close>

theorem Query_rows:
  "(Query m dbName query tr = (Success res, tr') \<longrightarrow>
      (\<exists>d rows vss. connections m dbName = Some d \<and> dbQuery d tr query = Inr rows
           \<and> rowsColumns rows = Inr (Columns res)
           \<and> rowsNext rows = map Inr vss
           \<and> Rows res = map (map convertValue) vss
           \<and> list_all (\<lambda>row. length row = length (Columns res)) (Rows res)))
   \<and> convertValue (VBytes b) = VString b
   \<and> ((\<forall>b. v \<noteq> VBytes b) \<longrightarrow> convertValue v = v)
   \<and> (connections m dbName = Some d \<and> dbQuery d tr query = Inr rows
        \<and> Inl msg \<in> set (rowsNext rows) \<longrightarrow>
        (\<exists>e. fst (Query m dbName query tr) = Failure None e
           \<or> fst (Query m dbName query tr)
               = Failure (Some \<lparr>Columns = [], Rows = [], Error = Some e\<rparr>) e))
   \<and> (connections m dbName = Some d \<and> dbQuery d tr query = Inr rows
        \<and> rowsErr rows = Some msg \<longrightarrow>
        (\<exists>e. fst (Query m dbName query tr) = Failure None e
           \<or> fst (Query m dbName query tr)
               = Failure (Some \<lparr>Columns = [], Rows = [], Error = Some e\<rparr>) e))
   \<and> (Query m dbName query tr = (Success res, tr')) =
       (AllowQuery (Permission (DBManager.config m))
        \<and> (\<exists>d rows vss. connections m dbName = Some d \<and> dbQuery d tr query = Inr rows
              \<and> rowsColumns rows = Inr (Columns res)
              \<and> rowsNext rows = map Inr vss
              \<and> list_all (\<lambda>vs. length vs = length (Columns res)) vss
              \<and> rowsErr rows = None
              \<and> Rows res = map (map convertValue) vss
              \<and> QueryResult.Error res = None
              \<and> tr' = tr @ [QueryCall query]))
   \<and> (fst (Query m dbName query tr) = Failure r e \<longrightarrow>
        r = None \<or> r = Some \<lparr>Columns = [], Rows = [], Error = Some e\<rparr>)"
proof (intro conjI impI)
  show "\<exists>d rows vss. connections m dbName = Some d \<and> dbQuery d tr query = Inr rows
           \<and> rowsColumns rows = Inr (Columns res)
           \<and> rowsNext rows = map Inr vss
           \<and> Rows res = map (map convertValue) vss
           \<and> list_all (\<lambda>row. length row = length (Columns res)) (Rows res)"
    if "Query m dbName query tr = (Success res, tr')"
    using Query_Success[OF that] .
  show "convertValue (VBytes b) = VString b" by simp
  show "convertValue v = v" if "\<forall>b. v \<noteq> VBytes b"
    using convertValue_other[OF that] .
  show "\<exists>e. fst (Query m dbName query tr) = Failure None e
           \<or> fst (Query m dbName query tr)
               = Failure (Some \<lparr>Columns = [], Rows = [], Error = Some e\<rparr>) e"
    if "connections m dbName = Some d \<and> dbQuery d tr query = Inr rows
        \<and> Inl msg \<in> set (rowsNext rows)"
  proof -
    have "\<exists>r e. fst (Query m dbName query tr) = Failure r e"
      using Query_scan_failure[of m dbName d tr query rows msg] that by simp
    then obtain r e where f: "fst (Query m dbName query tr) = Failure r e"
      by (elim exE)
    show ?thesis using f Query_Failure_no_rows[OF f] by auto
  qed
  show "\<exists>e. fst (Query m dbName query tr) = Failure None e
           \<or> fst (Query m dbName query tr)
               = Failure (Some \<lparr>Columns = [], Rows = [], Error = Some e\<rparr>) e"
    if "connections m dbName = Some d \<and> dbQuery d tr query = Inr rows
        \<and> rowsErr rows = Some msg"
  proof -
    have "\<exists>r e. fst (Query m dbName query tr) = Failure r e"
      using Query_rows_error[of m dbName d tr query rows msg] that by simp
    then obtain r e where f: "fst (Query m dbName query tr) = Failure r e"
      by (elim exE)
    show ?thesis using f Query_Failure_no_rows[OF f] by auto
  qed
  show "(Query m dbName query tr = (Success res, tr')) =
       (AllowQuery (Permission (DBManager.config m))
        \<and> (\<exists>d rows vss. connections m dbName = Some d \<and> dbQuery d tr query = Inr rows
              \<and> rowsColumns rows = Inr (Columns res)
              \<and> rowsNext rows = map Inr vss
              \<and> list_all (\<lambda>vs. length vs = length (Columns res)) vss
              \<and> rowsErr rows = None
              \<and> Rows res = map (map convertValue) vss
              \<and> QueryResult.Error res = None
              \<and> tr' = tr @ [QueryCall query]))"
    by (rule Query_Success_iff)
  show "r = None \<or> r = Some \<lparr>Columns = [], Rows = [], Error = Some e\<rparr>"
    if "fst (Query m dbName query tr) = Failure r e"
    using Query_Failure_no_rows[OF that] .
qed

theorem Query_rows_witness:
  "Query (sampleManager sampleDB readOnly) ''default'' ''SELECT id, name FROM t'' []
     = (Success \<lparr>Columns = [''id'', ''name''],
                 Rows = [[VInt64 1, VString ''ann''], [VInt64 2, VNil]], Error = None\<rparr>,
        [QueryCall ''SELECT id, name FROM t''])
   \<and> rowsNext \<lparr>rowsColumns = Inr [''id'', ''name''],
                rowsNext = [Inr [VInt64 1, VBytes ''ann''], Inr [VInt64 2, VNil]],
                rowsErr = None\<rparr>
       = map Inr [[VInt64 1, VBytes ''ann''], [VInt64 2, VNil]]
   \<and> convertValue (VBytes ''ann'') = VString ''ann''
   \<and> convertValue (VInt64 2) = VInt64 2
   \<and> connections (sampleManager brokenScanDB readOnly) ''default'' = Some brokenScanDB
   \<and> dbQuery brokenScanDB [] ''SELECT id, name FROM t''
       = Inr \<lparr>rowsColumns = Inr [''id'', ''name''],
              rowsNext = [Inr [VInt64 1, VBytes ''ann''], Inl ''scan failed''],
              rowsErr = None\<rparr>
   \<and> Inl ''scan failed'' \<in> set [Inr [VInt64 1, VBytes ''ann''], Inl ''scan failed'']
   \<and> fst (Query (sampleManager brokenScanDB readOnly) ''default''
             ''SELECT id, name FROM t'' [])
       = Failure (Some \<lparr>Columns = [], Rows = [], Error = Some (DriverError ''scan failed'')\<rparr>)
           (DriverError ''scan failed'')
   \<and> connections (sampleManager brokenCursorDB readOnly) ''default'' = Some brokenCursorDB
   \<and> dbQuery brokenCursorDB [] ''SELECT id, name FROM t''
       = Inr \<lparr>rowsColumns = Inr [''id'', ''name''],
              rowsNext = [Inr [VInt64 1, VBytes ''ann'']],
              rowsErr = Some ''connection lost''\<rparr>
   \<and> fst (Query (sampleManager brokenCursorDB readOnly) ''default''
             ''SELECT id, name FROM t'' [])
       = Failure (Some \<lparr>Columns = [], Rows = [],
                         Error = Some (DriverError ''connection lost'')\<rparr>)
           (DriverError ''connection lost'')"
  using
    Query_rows[of "sampleManager sampleDB readOnly" "''default''" "''SELECT id, name FROM t''"
      "[]" "\<lparr>Columns = [''id'', ''name''],
              Rows = [[VInt64 1, VString ''ann''], [VInt64 2, VNil]], Error = None\<rparr>"
      "[QueryCall ''SELECT id, name FROM t'']" "''ann''" "VInt64 2" sampleDB
      "\<lparr>rowsColumns = Inr [''id'', ''name''],
        rowsNext = [Inr [VInt64 1, VBytes ''ann''], Inr [VInt64 2, VNil]],
        rowsErr = None\<rparr>" "''none''"]
    Query_rows[of "sampleManager brokenScanDB readOnly" "''default''"
      "''SELECT id, name FROM t''" "[]" _ _ "''ann''" "VInt64 2" brokenScanDB
      "\<lparr>rowsColumns = Inr [''id'', ''name''],
        rowsNext = [Inr [VInt64 1, VBytes ''ann''], Inl ''scan failed''],
        rowsErr = None\<rparr>" "''scan failed''"]
    Query_rows[of "sampleManager brokenCursorDB readOnly" "''default''"
      "''SELECT id, name FROM t''" "[]" _ _ "''ann''" "VInt64 2" brokenCursorDB
      "\<lparr>rowsColumns = Inr [''id'', ''name''],
        rowsNext = [Inr [VInt64 1, VBytes ''ann'']],
        rowsErr = Some ''connection lost''\<rparr>" "''connection lost''"]
  by (simp add: sample_defs Query_def GetDB_def queryFailed_def)

section \<open>The \<^verbatim>\<open>sql\<close> argument of the two tools\<close>

lemma unmarshalSQLParams_absent: "unmarshalSQLParams None = Inl UnexpectedEndOfJSON"
  by (simp add: unmarshalSQLParams_def)

lemma unmarshalSQLParams_no_object:
  "v \<noteq> JNull \<Longrightarrow> \<forall>ms. v \<noteq> JObject ms \<Longrightarrow> unmarshalSQLParams (Some v) = Inl UnmarshalTypeError"
  by (cases v) (simp_all add: unmarshalSQLParams_def)

lemma unmarshalSQLParams_mistyped:
  "list_ex stringTypeError (fieldValues ''sql'' ms) \<Longrightarrow>
   unmarshalSQLParams (Some (JObject ms)) = Inl UnmarshalTypeError"
  by (simp add: unmarshalSQLParams_def)

lemma handleMySQLExecute_decode_error:
  "unmarshalSQLParams raw = Inl err \<Longrightarrow>
   handleMySQLExecute lib s i raw w =
     w\<lparr>written := written w @
         [errorResponse i (- 32602) InvalidSQLParams (JSONErrorData err)]\<rparr>"
  by (simp add: handleMySQLExecute_def sendError_eq)

lemma handleMySQLQuery_decode_error:
  "unmarshalSQLParams raw = Inl err \<Longrightarrow> AllowQuery (Permission (config s)) \<Longrightarrow>
   handleMySQLQuery s i raw w =
     w\<lparr>written := written w @
         [errorResponse i (- 32602) InvalidSQLParams (JSONErrorData err)]\<rparr>"
  by (simp add: handleMySQLQuery_def sendError_eq)

text \<open>
  Claim C7, as the code has it. Take arguments that are absent, or are a JSON value
  other than an object and other than \<^verbatim>\<open>null\<close>, or are an object in which a member
  named \<^verbatim>\<open>sql\<close> holds a value that is neither a string nor \<^verbatim>\<open>null\<close>. The handler of
  the execute tool, and the handler of the query tool when \<^verbatim>\<open>AllowQuery\<close> is true,
  writes one error response with code \<open>-32602\<close> and does nothing else: it calls
  neither the gateway nor the backend. When \<^verbatim>\<open>AllowQuery\<close> is false the handler of the
  query tool writes the permission error with code \<open>-32000\<close> instead, and does nothing
  else.
\<close>

theorem invalid_sql_arguments_rejected:
  assumes "raw = None
           \<or> (\<exists>v. raw = Some v \<and> v \<noteq> JNull \<and> (\<forall>ms. v \<noteq> JObject ms))
           \<or> (\<exists>ms. raw = Some (JObject ms)
                  \<and> list_ex stringTypeError (fieldValues ''sql'' ms))"
  shows "\<exists>err.
           handleMySQLExecute lib s i raw w =
             w\<lparr>written := written w @
                 [errorResponse i (- 32602) InvalidSQLParams (JSONErrorData err)]\<rparr>
         \<and> (AllowQuery (Permission (config s)) \<longrightarrow>
              handleMySQLQuery s i raw w =
                w\<lparr>written := written w @
                    [errorResponse i (- 32602) InvalidSQLParams (JSONErrorData err)]\<rparr>)
         \<and> (\<not> AllowQuery (Permission (config s)) \<longrightarrow>
              handleMySQLQuery s i raw w =
                w\<lparr>written := written w @
                    [errorResponse i (- 32000) (ErrorText QueryNotAllowed) NoData]\<rparr>)"
proof -
  obtain err where e: "unmarshalSQLParams raw = Inl err"
    using assms unmarshalSQLParams_absent unmarshalSQLParams_no_object
      unmarshalSQLParams_mistyped by blast
  show ?thesis
    using handleMySQLExecute_decode_error[OF e, of lib s i w]
      handleMySQLQuery_decode_error[OF e, of s i w] handleMySQLQuery_denied[of s i raw w]
    by blast
qed

theorem invalid_sql_arguments_rejected_witness:
  "handleMySQLExecute asciiStrings (sampleServer allowAll) (JNumber ''1'') None emptyWorld
       = \<lparr>written = [errorResponse (JNumber ''1'') (- 32602) InvalidSQLParams
                       (JSONErrorData UnexpectedEndOfJSON)],
          calls = [], gateway = []\<rparr>
   \<and> JNumber ''5'' \<noteq> JNull
   \<and> handleMySQLExecute asciiStrings (sampleServer allowAll) (JNumber ''1'')
         (Some (JNumber ''5'')) emptyWorld
       = \<lparr>written = [errorResponse (JNumber ''1'') (- 32602) InvalidSQLParams
                       (JSONErrorData UnmarshalTypeError)],
          calls = [], gateway = []\<rparr>
   \<and> list_ex stringTypeError (fieldValues ''sql'' [(''sql'', JNumber ''5'')])
   \<and> handleMySQLExecute asciiStrings (sampleServer allowAll) (JNumber ''1'')
         (Some (JObject [(''sql'', JNumber ''5'')])) emptyWorld
       = \<lparr>written = [errorResponse (JNumber ''1'') (- 32602) InvalidSQLParams
                       (JSONErrorData UnmarshalTypeError)],
          calls = [], gateway = []\<rparr>
   \<and> AllowQuery (Permission (config (sampleServer allowAll)))
   \<and> handleMySQLQuery (sampleServer allowAll) (JNumber ''1'')
         (Some (JObject [(''sql'', JNumber ''5'')])) emptyWorld
       = \<lparr>written = [errorResponse (JNumber ''1'') (- 32602) InvalidSQLParams
                       (JSONErrorData UnmarshalTypeError)],
          calls = [], gateway = []\<rparr>
   \<and> handleMySQLQuery (sampleServer allowAll) (JNumber ''1'') None emptyWorld
       = \<lparr>written = [errorResponse (JNumber ''1'') (- 32602) InvalidSQLParams
                       (JSONErrorData UnexpectedEndOfJSON)],
          calls = [], gateway = []\<rparr>
   \<and> \<not> AllowQuery (Permission (config (sampleServer allowNone)))
   \<and> handleMySQLQuery (sampleServer allowNone) (JNumber ''1'')
         (Some (JObject [(''sql'', JNumber ''5'')])) emptyWorld
       = \<lparr>written = [errorResponse (JNumber ''1'') (- 32000) (ErrorText QueryNotAllowed)
                       NoData],
          calls = [], gateway = []\<rparr>"
  using
    invalid_sql_arguments_rejected[of None asciiStrings "sampleServer allowAll"
      "JNumber ''1''" emptyWorld]
    invalid_sql_arguments_rejected[of "Some (JNumber ''5'')" asciiStrings
      "sampleServer allowAll" "JNumber ''1''" emptyWorld]
    invalid_sql_arguments_rejected[of "Some (JObject [(''sql'', JNumber ''5'')])" asciiStrings
      "sampleServer allowAll" "JNumber ''1''" emptyWorld]
    invalid_sql_arguments_rejected[of "Some (JObject [(''sql'', JNumber ''5'')])" asciiStrings
      "sampleServer allowNone" "JNumber ''1''" emptyWorld]
  by (simp add: fieldValues_def toLowerChar_def sample_defs handleMySQLExecute_def
      handleMySQLQuery_def unmarshalSQLParams_def sendError_eq)

text \<open>
  Claim C7 as stated fails for the query tool when \<^verbatim>\<open>AllowQuery\<close> is false: given
  \<^verbatim>\<open>{"sql": 5}\<close>, the handler answers with the permission error, code \<open>-32000\<close>, not
  with code \<open>-32602\<close>, since it checks the flag before it decodes the arguments.
\<close>

theorem mistyped_sql_query_gate_first:
  "handleMySQLQuery (sampleServer allowNone) (JNumber ''1'')
         (Some (JObject [(''sql'', JNumber ''5'')])) emptyWorld
     = \<lparr>written = [errorResponse (JNumber ''1'') (- 32000) (ErrorText QueryNotAllowed) NoData],
        calls = [], gateway = []\<rparr>"
  by (simp add: handleMySQLQuery_def sendError_eq sample_defs)

lemma unmarshal_missing_sql:
  "fieldValues ''sql'' members = [] \<Longrightarrow>
   unmarshalSQLParams (Some (JObject members)) = Inr \<lparr>SQL = ''''\<rparr>"
  by (simp add: unmarshalSQLParams_def)

lemma handleMySQLExecute_gateway:
  "unmarshalSQLParams raw = Inr p \<Longrightarrow>
   gateway (handleMySQLExecute lib s i raw w)
     = gateway w @ [GatewayExecute ''default'' (SQL p)]
   \<and> calls (handleMySQLExecute lib s i raw w)
       = snd (Execute lib (dbManager s) ''default'' (SQL p) (calls w))"
  by (auto simp: handleMySQLExecute_def sendError_eq sendResponse_def Let_def
      split: sum.splits prod.splits returned.splits)

text \<open>
  Claim C10, as the code has it. When the arguments are a JSON object with no member
  named \<^verbatim>\<open>sql\<close>, the handler of the execute tool calls \<^verbatim>\<open>Execute\<close> on the connection
  \<^verbatim>\<open>default\<close> with the empty statement, and the backend calls afterwards are those that
  this call leaves. The handler of the query tool does the same with \<^verbatim>\<open>Query\<close> when
  \<^verbatim>\<open>AllowQuery\<close> is true. When \<^verbatim>\<open>AllowQuery\<close> is false it writes the permission
  error with code \<open>-32000\<close> and does nothing else: it makes no call to the gateway.
\<close>

theorem missing_sql_is_empty_statement:
  assumes "fieldValues ''sql'' members = []"
  shows "gateway (handleMySQLExecute lib s i (Some (JObject members)) w)
           = gateway w @ [GatewayExecute ''default'' '''']
         \<and> calls (handleMySQLExecute lib s i (Some (JObject members)) w)
           = snd (Execute lib (dbManager s) ''default'' '''' (calls w))
         \<and> (AllowQuery (Permission (config s)) \<longrightarrow>
              gateway (handleMySQLQuery s i (Some (JObject members)) w)
                = gateway w @ [GatewayQuery ''default'' '''']
              \<and> calls (handleMySQLQuery s i (Some (JObject members)) w)
                = snd (Query (dbManager s) ''default'' '''' (calls w)))
         \<and> (\<not> AllowQuery (Permission (config s)) \<longrightarrow>
              handleMySQLQuery s i (Some (JObject members)) w
                = w\<lparr>written := written w @
                      [errorResponse i (- 32000) (ErrorText QueryNotAllowed) NoData]\<rparr>)"
  using handleMySQLExecute_gateway[OF unmarshal_missing_sql[OF assms], of lib s i w]
    handleMySQLQuery_gateway[OF unmarshal_missing_sql[OF assms], of s i w]
    handleMySQLQuery_denied[of s i "Some (JObject members)" w]
  by simp

lemma sample_empty_statement:
  "TrimSpace asciiStrings (ToLower asciiStrings '''') = ''''"
  by (simp add: string_defs)

theorem missing_sql_is_empty_statement_witness:
  "fieldValues ''sql'' [(''limit'', JNumber ''10'')] = []
   \<and> gateway (handleMySQLExecute asciiStrings (sampleServer allowAll) (JNumber ''1'')
                (Some (JObject [(''limit'', JNumber ''10'')])) emptyWorld)
       = [GatewayExecute ''default'' '''']
   \<and> calls (handleMySQLExecute asciiStrings (sampleServer allowAll) (JNumber ''1'')
              (Some (JObject [(''limit'', JNumber ''10'')])) emptyWorld)
       = [ExecCall '''']
   \<and> AllowQuery (Permission (config (sampleServer allowAll)))
   \<and> gateway (handleMySQLQuery (sampleServer allowAll) (JNumber ''1'')
                (Some (JObject [(''limit'', JNumber ''10'')])) emptyWorld)
       = [GatewayQuery ''default'' '''']
   \<and> calls (handleMySQLQuery (sampleServer allowAll) (JNumber ''1'')
              (Some (JObject [(''limit'', JNumber ''10'')])) emptyWorld)
       = [QueryCall '''']
   \<and> \<not> AllowQuery (Permission (config (sampleServer allowNone)))
   \<and> handleMySQLQuery (sampleServer allowNone) (JNumber ''1'')
         (Some (JObject [(''limit'', JNumber ''10'')])) emptyWorld
       = \<lparr>written = [errorResponse (JNumber ''1'') (- 32000) (ErrorText QueryNotAllowed)
                       NoData],
          calls = [], gateway = []\<rparr>"
  using missing_sql_is_empty_statement[of "[(''limit'', JNumber ''10'')]" asciiStrings
      "sampleServer allowAll" "JNumber ''1''" emptyWorld]
    missing_sql_is_empty_statement[of "[(''limit'', JNumber ''10'')]" asciiStrings
      "sampleServer allowNone" "JNumber ''1''" emptyWorld]
  by (simp add: fieldValues_def toLowerChar_def Execute_def executeDenied_def GetDB_def
      Query_def sample_defs sample_empty_statement HasPrefix_def)

text \<open>
  Claim C10 as stated fails for the query tool when \<^verbatim>\<open>AllowQuery\<close> is false: given
  the arguments \<^verbatim>\<open>{}\<close>, the handler answers with the permission error and makes no call
  to the gateway.
\<close>

theorem missing_sql_query_gate_first:
  "handleMySQLQuery (sampleServer allowNone) (JNumber ''1'') (Some (JObject [])) emptyWorld
     = \<lparr>written = [errorResponse (JNumber ''1'') (- 32000) (ErrorText QueryNotAllowed) NoData],
        calls = [], gateway = []\<rparr>"
  by (simp add: handleMySQLQuery_def sendError_eq sample_defs)

section \<open>DROP and TRUNCATE\<close>

text \<open>
  The go-mcp server keeps a statement that begins with \<^verbatim>\<open>DROP\<close> or \<^verbatim>\<open>TRUNCATE\<close>
  (upper-cased and trimmed) from the backend in both handlers, whatever the flags are.
  With logging on, a rejected statement shorter than ten bytes makes the handler panic at
  \<^verbatim>\<open>sqlUpper[:10]\<close>; the backend is not reached then either.
\<close>

lemma handleExecute_forbidden:
  assumes "args ''sql'' = Some (JString sql)"
    and "HasPrefix (TrimSpace lib (ToUpper lib sql)) ''DROP''
         \<or> HasPrefix (TrimSpace lib (ToUpper lib sql)) ''TRUNCATE''"
  shows "handleExecute lib marshal g args tr =
           (if logEnabled g \<and> length (TrimSpace lib (ToUpper lib sql)) < 10 then Panic
            else Return (Inl DangerousOperation), tr)"
  using assms keyword_clash(4)[of "TrimSpace lib (ToUpper lib sql)"]
  by (auto simp: handleExecute_def)

lemma handleQuery_forbidden:
  assumes "args ''sql'' = Some (JString sql)"
    and "HasPrefix (TrimSpace lib (ToUpper lib sql)) ''DROP''
         \<or> HasPrefix (TrimSpace lib (ToUpper lib sql)) ''TRUNCATE''"
  shows "handleQuery lib marshal g args tr =
           (if logEnabled g \<and> length (TrimSpace lib (ToUpper lib sql)) < 10 then Panic
            else Return (Inl OnlyReadQueries), tr)"
  using assms keyword_clash(4)[of "TrimSpace lib (ToUpper lib sql)"]
  by (auto simp: handleQuery_def)

text \<open>
  The gateway has no such list: on a configured connection, \<^verbatim>\<open>Execute\<close> sends every
  statement that begins with \<^verbatim>\<open>drop\<close> or \<^verbatim>\<open>truncate\<close> (lower-cased and trimmed) to
  the backend, whatever the flags are.
\<close>

lemma Execute_no_denylist:
  assumes "HasPrefix (TrimSpace lib (ToLower lib query)) ''drop''
           \<or> HasPrefix (TrimSpace lib (ToLower lib query)) ''truncate''"
    and "connections m dbName = Some d"
  shows "snd (Execute lib m dbName query tr) = tr @ [ExecCall query]"
proof -
  have "executeDenied p (TrimSpace lib (ToLower lib query)) = None" for p
    using assms(1) by (auto simp: executeDenied_def dest: HasPrefix_head HasPrefix_second)
  then show ?thesis using Execute_dispatched[OF _ assms(2)] by simp
qed

lemma sample_drop_statement:
  "TrimSpace asciiStrings (ToLower asciiStrings ''DROP TABLE t'') = ''drop table t''"
  "TrimSpace asciiStrings (ToUpper asciiStrings ''DROP TABLE t'') = ''DROP TABLE T''"
  by (simp_all add: string_defs)

text \<open>
  Claim C1 fails on the gateway: \<^verbatim>\<open>Execute\<close> has no list of forbidden statements. With
  all four flags true it sends \<^verbatim>\<open>DROP TABLE t\<close> to the backend, whatever the backend
  and the calls before are. \<^verbatim>\<open>handleExecute\<close> of the go-mcp server rejects the same
  statement.
\<close>

theorem Execute_dispatches_DROP:
  "snd (Execute asciiStrings (sampleManager d allowAll) ''default'' ''DROP TABLE t'' tr)
     = tr @ [ExecCall ''DROP TABLE t'']
   \<and> handleExecute asciiStrings marshal (sampleGlobals True False)
         [''sql'' \<mapsto> JString ''DROP TABLE t''] tr
     = (Return (Inl DangerousOperation), tr)"
  by (simp add: Execute_def executeDenied_def GetDB_def handleExecute_def sample_defs
      sample_drop_statement HasPrefix_def Let_def split: sum.splits prod.splits option.splits)

text \<open>
  Claim C4 fails on the two handlers of the JSON-RPC dispatcher: neither looks at the
  statement. With the flags true, the query tool sends \<^verbatim>\<open>DROP TABLE t\<close> to the backend
  through \<^verbatim>\<open>db.Query\<close> and the execute tool sends it through \<^verbatim>\<open>db.Exec\<close>.
  \<^verbatim>\<open>handleQuery\<close> of the go-mcp server rejects the same statement.
\<close>

theorem handlers_dispatch_DROP:
  "calls (handleMySQLQuery (sampleServer allowAll) i
            (Some (JObject [(''sql'', JString ''DROP TABLE t'')])) emptyWorld)
     = [QueryCall ''DROP TABLE t'']
   \<and> calls (handleMySQLExecute asciiStrings (sampleServer allowAll) i
            (Some (JObject [(''sql'', JString ''DROP TABLE t'')])) emptyWorld)
     = [ExecCall ''DROP TABLE t'']
   \<and> handleQuery asciiStrings marshal (sampleGlobals True False)
         [''sql'' \<mapsto> JString ''DROP TABLE t''] []
     = (Return (Inl OnlyReadQueries), [])"
  by (simp add: handleMySQLQuery_def handleMySQLExecute_def unmarshalSQLParams_def
      fieldValues_def toLowerChar_def Query_def Execute_def executeDenied_def GetDB_def
      handleQuery_def sendError_def sendResponse_def toolResponse_def
      sample_defs sample_drop_statement HasPrefix_def Let_def)

end
